theory Spec2Isabelle
  imports Main
begin

section \<open>Affine expressions and affine maps\<close>

text \<open>
  The structured operations of \<^verbatim>\<open>LinalgStructuredOps.td\<close> describe their access
  patterns with affine maps from the iteration space to the coordinates of each operand.
\<close>

text \<open>
  Modelled from the spec: the affine expressions and maps (the classes \<^verbatim>\<open>AffineExpr\<close>
  and \<^verbatim>\<open>AffineMap\<close> are declared outside the operation definition file). An affine
  expression is a tree over dimension references, integer constants, sums and products
  by a constant; a map has a domain rank and a list of result expressions.
  \<^verbatim>\<open>AffineMap::get(idx, 0, exprs, context)\<close> also takes a number of symbols, \<open>0\<close>
  wherever the operations build a map.
\<close>

datatype AffineExpr =
    Dim nat
  | Const int
  | Add AffineExpr AffineExpr
  | Mul AffineExpr AffineExpr

record AffineMap =
  numDims :: nat
  numSymbols :: nat
  results :: "AffineExpr list"

definition AffineMap_get :: "nat \<Rightarrow> nat \<Rightarrow> AffineExpr list \<Rightarrow> AffineMap" where
  "AffineMap_get dimCount symbolCount exprs =
     \<lparr>numDims = dimCount, numSymbols = symbolCount, results = exprs\<rparr>"

text \<open>
  A map is a function from a coordinate vector of the iteration space to a coordinate
  vector of the operand: the value of an expression at a point, of a list of
  expressions, and of a map at a point of its domain rank. A reference to a dimension
  the point does not have has no value.
\<close>

fun eval_expr :: "int list \<Rightarrow> AffineExpr \<Rightarrow> int option" where
  "eval_expr pt (Dim i) = (if i < length pt then Some (pt ! i) else None)"
| "eval_expr pt (Const c) = Some c"
| "eval_expr pt (Add a b) =
     (case eval_expr pt a of
        None \<Rightarrow> None
      | Some x \<Rightarrow> (case eval_expr pt b of None \<Rightarrow> None | Some y \<Rightarrow> Some (x + y)))"
| "eval_expr pt (Mul a b) =
     (case eval_expr pt a of
        None \<Rightarrow> None
      | Some x \<Rightarrow> (case eval_expr pt b of None \<Rightarrow> None | Some y \<Rightarrow> Some (x * y)))"

fun eval_exprs :: "int list \<Rightarrow> AffineExpr list \<Rightarrow> int list option" where
  "eval_exprs pt [] = Some []"
| "eval_exprs pt (e # es) =
     (case eval_expr pt e of
        None \<Rightarrow> None
      | Some v \<Rightarrow> (case eval_exprs pt es of None \<Rightarrow> None | Some vs \<Rightarrow> Some (v # vs)))"

definition eval_map :: "int list \<Rightarrow> AffineMap \<Rightarrow> int list option" where
  "eval_map pt m = (if length pt = numDims m then eval_exprs pt (results m) else None)"

section \<open>Errors\<close>

text \<open>
  Every assertion of the source and every failure of the verifier is a value.
  \<^item> \<open>NoWindowDimension\<close>: the assertion \<^verbatim>\<open>"expected at least one window dimension"\<close>
    of \<^verbatim>\<open>iterator_types\<close> and \<^verbatim>\<open>indexing_maps\<close> failed, or the verifier found no
    window dimension;
  \<^item> \<open>WindowIndexOutOfRange\<close>: \<^verbatim>\<open>assert(i < getNumWindowLoops())\<close> failed;
  \<^item> \<open>AttributeIndexOutOfBounds\<close>: an attribute array was read past its end;
  \<^item> the others are the verifier's and the map algebra's failures.
\<close>

datatype error =
    NoWindowDimension
  | WindowIndexOutOfRange
  | AttributeIndexOutOfBounds
  | OperandMapCountMismatch
  | IteratorRankMismatch
  | OperandRankMismatch
  | NoOutput
  | RankMismatch
  | InvalidPermutation

definition bindE :: "error + 'a \<Rightarrow> ('a \<Rightarrow> error + 'b) \<Rightarrow> error + 'b" where
  "bindE r f = (case r of Inl e \<Rightarrow> Inl e | Inr v \<Rightarrow> f v)"

section \<open>Operand types and operations\<close>

text \<open>
  Modelled from the spec: the shape of an operand (the type system of the host IR is
  outside the operation definition file). A shaped operand (memref or tensor) is the
  list of its extents, static or dynamic; its rank is the length of the list.

  Ranks and loop counts are natural numbers, far below \<open>2 ^ 32\<close> for every type that
  can be written down, so the conversions from a rank to \<^verbatim>\<open>unsigned\<close> are exact. The
  \<^verbatim>\<open>unsigned\<close> subtractions are written with their guards, and the one unguarded
  subtraction (\<^verbatim>\<open>getNumSpatialDimensions\<close>) with its wrap-around.
\<close>

datatype extent = Static nat | Dynamic

type_synonym ShapedType = "extent list"

definition getRank :: "ShapedType \<Rightarrow> nat" where
  "getRank t = length t"

datatype ScalarType = AnyFloat | AnySignlessInteger | AnyVector

text \<open>
  The optional attributes of \<^verbatim>\<open>PoolingBase_Op\<close>: \<^verbatim>\<open>strides\<close> and \<^verbatim>\<open>dilations\<close> are
  arrays of 64-bit integers, \<^verbatim>\<open>padding\<close> is an array of pairs (low, high). An entry
  is the integer it denotes (\<^verbatim>\<open>getSExtValue\<close>); the accessors only read it.
\<close>

record WindowAttrs =
  strides :: "int list option"
  dilations :: "int list option"
  padding :: "(int \<times> int) list option"

datatype PoolingKind = PoolingMax | PoolingMin | PoolingSum

text \<open>
  The window operations: \<^verbatim>\<open>ConvOp\<close> takes (filter, input, output), a single-input
  pooling operation takes (input, windowDims, output).
\<close>

datatype PoolingBase_Op =
    ConvOp ShapedType ShapedType ShapedType WindowAttrs
  | SingleInputPoolingOp PoolingKind ShapedType ShapedType ShapedType WindowAttrs

fun getOutputShapedType :: "PoolingBase_Op \<Rightarrow> ShapedType" where
  "getOutputShapedType (ConvOp flt inp out a) = out"
| "getOutputShapedType (SingleInputPoolingOp k inp win out a) = out"

fun attrs :: "PoolingBase_Op \<Rightarrow> WindowAttrs" where
  "attrs (ConvOp flt inp out a) = a"
| "attrs (SingleInputPoolingOp k inp win out a) = a"

text \<open>
  Modelled from the spec: the names of the iterator kinds
  (\<^verbatim>\<open>getParallelIteratorTypeName\<close> and its siblings are declared outside the operation
  definition file). The kinds are parallel, reduction and window; the documentation of
  the generic operation lists the same three names for its \<^verbatim>\<open>iterator_types\<close>.
\<close>

definition getParallelIteratorTypeName :: string where
  "getParallelIteratorTypeName = ''parallel''"

definition getReductionIteratorTypeName :: string where
  "getReductionIteratorTypeName = ''reduction''"

definition getWindowIteratorTypeName :: string where
  "getWindowIteratorTypeName = ''window''"

subsection \<open>Convolution: dimension counts\<close>

definition getNumBatchDimensions :: nat where
  "getNumBatchDimensions = 1"

definition getNumInputFeatureDimensions :: nat where
  "getNumInputFeatureDimensions = 1"

definition getNumOutputFeatureDimensions :: nat where
  "getNumOutputFeatureDimensions = 1"

text \<open>The subtraction is \<^verbatim>\<open>unsigned\<close> and has no guard: below rank 2 it wraps.\<close>

definition getNumSpatialDimensions :: "PoolingBase_Op \<Rightarrow> nat" where
  "getNumSpatialDimensions op =
     (getRank (getOutputShapedType op) + 2 ^ 32
        - getNumBatchDimensions - getNumOutputFeatureDimensions) mod 2 ^ 32"

subsection \<open>Iterator types of the window operations\<close>

fun iterator_types :: "PoolingBase_Op \<Rightarrow> error + string list" where
  "iterator_types (ConvOp flt inp out a) =
     (let nPar = getRank out;
          nRed = getNumInputFeatureDimensions
      in if \<not> (nPar > getNumBatchDimensions + getNumInputFeatureDimensions)
         then Inl NoWindowDimension
         else
           let nWin = nPar - getNumBatchDimensions - getNumInputFeatureDimensions;
               iters = replicate nPar getParallelIteratorTypeName
           in Inr (iters @ replicate nRed getReductionIteratorTypeName
                         @ replicate nWin getWindowIteratorTypeName))"
| "iterator_types (SingleInputPoolingOp k inp win out a) =
     (let nPar = getRank out;
          nWin = nPar;
          iters = replicate nPar getParallelIteratorTypeName
      in Inr (iters @ replicate nWin getWindowIteratorTypeName))"

text \<open>
  Modelled from the spec: the loop counts of the structured-operation interface
  (\<^verbatim>\<open>getNumParallelLoops\<close>, \<^verbatim>\<open>getNumWindowLoops\<close>, declared in
  \<^verbatim>\<open>LinalgInterfaces.td\<close>, outside the operation definition file). The iterator
  classification says what each iteration dimension means, so the number of loops of a
  kind is the number of entries of that kind.
\<close>

definition getNumIterators :: "string \<Rightarrow> string list \<Rightarrow> nat" where
  "getNumIterators name its = length (filter (\<lambda>s. s = name) its)"

definition getNumParallelLoops :: "PoolingBase_Op \<Rightarrow> error + nat" where
  "getNumParallelLoops op =
     bindE (iterator_types op) (\<lambda>its. Inr (getNumIterators getParallelIteratorTypeName its))"

definition getNumWindowLoops :: "PoolingBase_Op \<Rightarrow> error + nat" where
  "getNumWindowLoops op =
     bindE (iterator_types op) (\<lambda>its. Inr (getNumIterators getWindowIteratorTypeName its))"

subsection \<open>Stride, dilation and padding of a window dimension\<close>

text \<open>
  The accessors of \<^verbatim>\<open>PoolingBase_Op\<close>. Each asserts that \<open>i\<close> is a window
  dimension, answers the default when the attribute is absent, and reads entry \<open>i\<close> of
  the attribute otherwise (a read past the end of the array is an error).
\<close>

definition getStride :: "PoolingBase_Op \<Rightarrow> nat \<Rightarrow> error + int" where
  "getStride op i =
     bindE (getNumWindowLoops op) (\<lambda>n.
       if \<not> i < n then Inl WindowIndexOutOfRange
       else (case strides (attrs op) of
               None \<Rightarrow> Inr 1
             | Some xs \<Rightarrow> if i < length xs then Inr (xs ! i) else Inl AttributeIndexOutOfBounds))"

definition getDilation :: "PoolingBase_Op \<Rightarrow> nat \<Rightarrow> error + int" where
  "getDilation op i =
     bindE (getNumWindowLoops op) (\<lambda>n.
       if \<not> i < n then Inl WindowIndexOutOfRange
       else (case dilations (attrs op) of
               None \<Rightarrow> Inr 1
             | Some xs \<Rightarrow> if i < length xs then Inr (xs ! i) else Inl AttributeIndexOutOfBounds))"

definition getLowPad :: "PoolingBase_Op \<Rightarrow> nat \<Rightarrow> error + int" where
  "getLowPad op i =
     bindE (getNumWindowLoops op) (\<lambda>n.
       if \<not> i < n then Inl WindowIndexOutOfRange
       else (case padding (attrs op) of
               None \<Rightarrow> Inr 0
             | Some ps \<Rightarrow> if i < length ps then Inr (fst (ps ! i)) else Inl AttributeIndexOutOfBounds))"

definition getHighPad :: "PoolingBase_Op \<Rightarrow> nat \<Rightarrow> error + int" where
  "getHighPad op i =
     bindE (getNumWindowLoops op) (\<lambda>n.
       if \<not> i < n then Inl WindowIndexOutOfRange
       else (case padding (attrs op) of
               None \<Rightarrow> Inr 0
             | Some ps \<Rightarrow> if i < length ps then Inr (snd (ps ! i)) else Inl AttributeIndexOutOfBounds))"

subsection \<open>Building the indexing maps of the window operations\<close>

text \<open>
  Modelled from the spec: \<^verbatim>\<open>makeAffineDimExprs(num, idx, context)\<close> and \<^verbatim>\<open>concat\<close>,
  helpers of the dialect defined outside the operation definition file. The
  iteration-space dimensions
  are allocated in a fixed order, each group taking the next \<open>num\<close> dimensions after the
  running index \<open>idx\<close>, which the call advances; the new index is returned with the
  expressions. \<open>concat_exprs\<close> puts two groups one after the other.
\<close>

definition makeAffineDimExprs :: "nat \<Rightarrow> nat \<Rightarrow> AffineExpr list \<times> nat" where
  "makeAffineDimExprs num idx = (map Dim [idx ..< idx + num], idx + num)"

definition concat_exprs :: "AffineExpr list \<Rightarrow> AffineExpr list \<Rightarrow> AffineExpr list" where
  "concat_exprs a b = a @ b"

text \<open>
  Modelled from the spec: \<^verbatim>\<open>weightedPoolingInputIndex(op, outputDims, windowDims)\<close>, the
  windowed-access builder, defined outside the operation definition file. It gives one
  expression per
  spatial dimension, \<open>output_coord[i] * stride[i] + window_coord[i] * dilation[i] -
  low_pad[i]\<close>, reading stride, dilation and low padding of dimension \<open>i\<close> through the
  accessors above. Expressions have no subtraction: the padding is added negated.
\<close>

definition weightedExpr :: "AffineExpr \<Rightarrow> AffineExpr \<Rightarrow> int \<Rightarrow> int \<Rightarrow> int \<Rightarrow> AffineExpr" where
  "weightedExpr x z s d p = Add (Add (Mul x (Const s)) (Mul z (Const d))) (Const (- p))"

fun weightedFrom ::
  "PoolingBase_Op \<Rightarrow> nat \<Rightarrow> AffineExpr list \<Rightarrow> AffineExpr list \<Rightarrow> error + AffineExpr list" where
  "weightedFrom op i (x # xs) (z # zs) =
     bindE (getStride op i) (\<lambda>s.
     bindE (getDilation op i) (\<lambda>d.
     bindE (getLowPad op i) (\<lambda>p.
     bindE (weightedFrom op (Suc i) xs zs) (\<lambda>rest.
       Inr (weightedExpr x z s d p # rest)))))"
| "weightedFrom op i xs zs = Inr []"

definition weightedPoolingInputIndex ::
  "PoolingBase_Op \<Rightarrow> AffineExpr list \<Rightarrow> AffineExpr list \<Rightarrow> error + AffineExpr list" where
  "weightedPoolingInputIndex op outputDims windowDims = weightedFrom op 0 outputDims windowDims"

fun indexing_maps :: "PoolingBase_Op \<Rightarrow> error + AffineMap list" where
  "indexing_maps (ConvOp flt inp out a) =
     bindE (getNumWindowLoops (ConvOp flt inp out a)) (\<lambda>nWin.
       if \<not> nWin > 0 then Inl NoWindowDimension
       else
         let idx0 = 0;
             (bs, idx1) = makeAffineDimExprs getNumBatchDimensions idx0;
             (xs, idx2) = makeAffineDimExprs nWin idx1;
             (ks, idx3) = makeAffineDimExprs getNumOutputFeatureDimensions idx2;
             (qs, idx4) = makeAffineDimExprs getNumInputFeatureDimensions idx3;
             (zs, idx) = makeAffineDimExprs nWin idx4
         in bindE (weightedPoolingInputIndex (ConvOp flt inp out a) xs zs) (\<lambda>ws.
              Inr [AffineMap_get idx 0 (concat_exprs (concat_exprs zs qs) ks),
                   AffineMap_get idx 0 (concat_exprs (concat_exprs bs ws) qs),
                   AffineMap_get idx 0 (concat_exprs (concat_exprs bs xs) ks)]))"
| "indexing_maps (SingleInputPoolingOp k inp win out a) =
     bindE (getNumParallelLoops (SingleInputPoolingOp k inp win out a)) (\<lambda>nPar.
     bindE (getNumWindowLoops (SingleInputPoolingOp k inp win out a)) (\<lambda>nWin.
       if \<not> nWin > 0 then Inl NoWindowDimension
       else
         let idx0 = 0;
             (outputDims, idx1) = makeAffineDimExprs nPar idx0;
             (windowDims, idx) = makeAffineDimExprs nWin idx1
         in bindE (weightedPoolingInputIndex (SingleInputPoolingOp k inp win out a)
                     outputDims windowDims) (\<lambda>inputDims.
              Inr [AffineMap_get idx 0 inputDims,
                   AffineMap_get idx 0 windowDims,
                   AffineMap_get idx 0 outputDims])))"

text \<open>
  The optional attributes are usable on \<open>n\<close> window dimensions when each one that is
  present has an entry for every window dimension.
\<close>

definition attrsInBounds :: "WindowAttrs \<Rightarrow> nat \<Rightarrow> bool" where
  "attrsInBounds a n \<longleftrightarrow>
     (case strides a of None \<Rightarrow> True | Some xs \<Rightarrow> n \<le> length xs) \<and>
     (case dilations a of None \<Rightarrow> True | Some xs \<Rightarrow> n \<le> length xs) \<and>
     (case padding a of None \<Rightarrow> True | Some ps \<Rightarrow> n \<le> length ps)"

section \<open>The map algebra\<close>

text \<open>
  Modelled from the spec: \<open>identity\<close>, \<open>permutation\<close> and \<open>compose\<close> of the affine
  index maps (members of the class \<^verbatim>\<open>AffineMap\<close>, declared outside the operation
  definition file). \<open>identity rank\<close> is
  the identity on \<open>rank\<close> dimensions; \<open>permutation perm\<close> has the dimension references
  reordered by \<open>perm\<close> as results and fails with \<open>InvalidPermutation\<close> unless \<open>perm\<close> is a
  bijection on \<open>[0, rank)\<close>; \<open>compose outer inner\<close> substitutes the results of \<open>inner\<close>
  for the dimension references of \<open>outer\<close> and fails with \<open>RankMismatch\<close> when the
  domain rank of \<open>outer\<close> is not the number of results of \<open>inner\<close>.
\<close>

definition identity :: "nat \<Rightarrow> AffineMap" where
  "identity rank = \<lparr>numDims = rank, numSymbols = 0, results = map Dim [0 ..< rank]\<rparr>"

definition isPermutation :: "nat list \<Rightarrow> bool" where
  "isPermutation perm \<longleftrightarrow> distinct perm \<and> list_all (\<lambda>i. i < length perm) perm"

definition permutation :: "nat list \<Rightarrow> error + AffineMap" where
  "permutation perm =
     (if isPermutation perm
      then Inr \<lparr>numDims = length perm, numSymbols = 0, results = map Dim perm\<rparr>
      else Inl InvalidPermutation)"

fun substDims :: "AffineExpr list \<Rightarrow> AffineExpr \<Rightarrow> AffineExpr" where
  "substDims rs (Dim i) = (if i < length rs then rs ! i else Dim i)"
| "substDims rs (Const c) = Const c"
| "substDims rs (Add a b) = Add (substDims rs a) (substDims rs b)"
| "substDims rs (Mul a b) = Mul (substDims rs a) (substDims rs b)"

definition compose :: "AffineMap \<Rightarrow> AffineMap \<Rightarrow> error + AffineMap" where
  "compose outer inner =
     (if numDims outer \<noteq> length (results inner) then Inl RankMismatch
      else Inr \<lparr>numDims = numDims inner,
                numSymbols = max (numSymbols outer) (numSymbols inner),
                results = map (substDims (results inner)) (results outer)\<rparr>)"

text \<open>
  Modelled from the spec: \<^verbatim>\<open>extractOrIdentityMap(maybeMap, rank, context)\<close>, a helper
  of the dialect defined outside the operation definition file. Each side of a copy is
  indexed by the
  identity or by its permutation: the supplied map when there is one, the identity of
  the given rank otherwise.
\<close>

definition extractOrIdentityMap :: "AffineMap option \<Rightarrow> nat \<Rightarrow> AffineMap" where
  "extractOrIdentityMap maybeMap rank =
     (case maybeMap of Some m \<Rightarrow> m | None \<Rightarrow> identity rank)"

section \<open>Copy, fill and the generic operations\<close>

text \<open>
  \<^verbatim>\<open>CopyOp\<close> takes (input, output, inputPermutation, outputPermutation), the
  permutations optional; \<^verbatim>\<open>FillOp\<close> takes (output, value).
\<close>

datatype CopyOp = CopyOp ShapedType ShapedType "AffineMap option" "AffineMap option"

fun CopyOp_iterator_types :: "CopyOp \<Rightarrow> string list" where
  "CopyOp_iterator_types (CopyOp inp out inputPermutation outputPermutation) =
     (let nPar = getRank inp
      in replicate nPar getParallelIteratorTypeName)"

fun CopyOp_indexing_maps :: "CopyOp \<Rightarrow> AffineMap list" where
  "CopyOp_indexing_maps (CopyOp inp out inputPermutation outputPermutation) =
     (let maybeInputMap = inputPermutation;
          maybeOutputMap = outputPermutation;
          inputRank = getRank inp;
          outputRank = getRank out
      in [extractOrIdentityMap maybeInputMap inputRank,
          extractOrIdentityMap maybeOutputMap outputRank])"

datatype FillOp = FillOp ShapedType ScalarType

fun FillOp_iterator_types :: "FillOp \<Rightarrow> string list" where
  "FillOp_iterator_types (FillOp out v) =
     (let nPar = getRank out
      in replicate nPar getParallelIteratorTypeName)"

fun FillOp_indexing_maps :: "FillOp \<Rightarrow> AffineMap list" where
  "FillOp_indexing_maps (FillOp out v) =
     [extractOrIdentityMap None
        (getNumIterators getParallelIteratorTypeName (FillOp_iterator_types (FillOp out v)))]"

text \<open>
  The arguments of \<^verbatim>\<open>GenericOpBase\<close>, shared by \<^verbatim>\<open>linalg.generic\<close> and
  \<^verbatim>\<open>linalg.indexed_generic\<close>; the maps and the iterator types are attributes.
\<close>

record GenericOpBase =
  inputs :: "ShapedType list"
  outputs :: "ShapedType list"
  indexing_maps_attr :: "AffineMap list"
  iterator_types_attr :: "string list"
  doc :: "string option"
  library_call :: "string option"
  sparse :: "string list list option"

definition getLibraryCallName :: "GenericOpBase \<Rightarrow> string" where
  "getLibraryCallName g =
     (case library_call g of
        Some s \<Rightarrow> s
      | None \<Rightarrow> ''op_has_no_registered_library_name'')"

datatype LinalgOp =
    Copy CopyOp
  | Fill FillOp
  | Window PoolingBase_Op
  | Generic GenericOpBase
  | IndexedGeneric GenericOpBase

section \<open>The operands of an operation\<close>

text \<open>
  The operands of each operation, in the order of its argument list, and the ranges of
  them that its \<^verbatim>\<open>inputs()\<close> and \<^verbatim>\<open>outputs()\<close> return. \<^verbatim>\<open>take_front()\<close> is the first
  operand, \<^verbatim>\<open>take_back()\<close> the last one, \<^verbatim>\<open>slice(n, m)\<close> the \<open>m\<close> operands from position
  \<open>n\<close>. A fill has no inputs and its output as only output: its scalar value is an
  operand, but neither an input nor an output. The generic operations have their
  \<^verbatim>\<open>inputs\<close> and \<^verbatim>\<open>outputs\<close> as arguments.
\<close>

datatype OperandType = ShapedOperand ShapedType | ScalarOperand ScalarType

definition take_front :: "'a list \<Rightarrow> 'a list" where
  "take_front xs = take 1 xs"

definition take_back :: "'a list \<Rightarrow> 'a list" where
  "take_back xs = drop (length xs - 1) xs"

definition slice :: "nat \<Rightarrow> nat \<Rightarrow> 'a list \<Rightarrow> 'a list" where
  "slice n m xs = take m (drop n xs)"

fun getOperands :: "LinalgOp \<Rightarrow> OperandType list" where
  "getOperands (Copy (CopyOp inp out ip op)) = [ShapedOperand inp, ShapedOperand out]"
| "getOperands (Fill (FillOp out v)) = [ShapedOperand out, ScalarOperand v]"
| "getOperands (Window (ConvOp flt inp out a)) =
     [ShapedOperand flt, ShapedOperand inp, ShapedOperand out]"
| "getOperands (Window (SingleInputPoolingOp k inp win out a)) =
     [ShapedOperand inp, ShapedOperand win, ShapedOperand out]"
| "getOperands (Generic g) =
     map ShapedOperand (inputs g) @ map ShapedOperand (outputs g)"
| "getOperands (IndexedGeneric g) =
     map ShapedOperand (inputs g) @ map ShapedOperand (outputs g)"

fun inputs_of :: "LinalgOp \<Rightarrow> OperandType list" where
  "inputs_of (Copy c) = take_front (getOperands (Copy c))"
| "inputs_of (Fill f) = []"
| "inputs_of (Window w) = slice 0 2 (getOperands (Window w))"
| "inputs_of (Generic g) = map ShapedOperand (inputs g)"
| "inputs_of (IndexedGeneric g) = map ShapedOperand (inputs g)"

fun outputs_of :: "LinalgOp \<Rightarrow> OperandType list" where
  "outputs_of (Copy c) = take_back (getOperands (Copy c))"
| "outputs_of (Fill f) = take_front (getOperands (Fill f))"
| "outputs_of (Window w) = take_back (getOperands (Window w))"
| "outputs_of (Generic g) = map ShapedOperand (outputs g)"
| "outputs_of (IndexedGeneric g) = map ShapedOperand (outputs g)"

section \<open>Operation descriptors and the verifier\<close>

text \<open>
  Modelled from the spec: the operation descriptor and \<^verbatim>\<open>::verify(op)\<close>, which the
  operations name as their verifier and which is defined outside the operation
  definition file. A descriptor holds the operands with their roles, one indexing
  map per operand and the iterator classification; the verifier also needs to know
  whether the variant is window-based. The descriptor of an operation collects its
  operands, the \<^verbatim>\<open>inputs()\<close> with the role input followed by the \<^verbatim>\<open>outputs()\<close> with
  the role output, its \<^verbatim>\<open>indexing_maps()\<close> and its \<^verbatim>\<open>iterator_types()\<close>; when one of
  these fails, no descriptor is built and the failure is the result. The verifier
  checks, in order, the first failure winning:
  \<^enum> as many indexing maps as operands, else \<open>OperandMapCountMismatch\<close>;
  \<^enum> every map's domain rank is the number of iterators, else \<open>IteratorRankMismatch\<close>;
  \<^enum> every map has as many results as its operand's rank, else \<open>OperandRankMismatch\<close>;
  \<^enum> a window-based variant has a window dimension, else \<open>NoWindowDimension\<close>;
  \<^enum> there is an output operand, else \<open>NoOutput\<close>.
\<close>

datatype role = Input | Output

fun operandRank :: "OperandType \<Rightarrow> nat" where
  "operandRank (ShapedOperand t) = getRank t"
| "operandRank (ScalarOperand v) = 0"

record OperationDescriptor =
  windowBased :: bool
  operands :: "(OperandType \<times> role) list"
  indexingMaps :: "AffineMap list"
  iterators :: "string list"

definition operandsWithRoles :: "LinalgOp \<Rightarrow> (OperandType \<times> role) list" where
  "operandsWithRoles op =
     map (\<lambda>t. (t, Input)) (inputs_of op) @ map (\<lambda>t. (t, Output)) (outputs_of op)"

fun descriptor :: "LinalgOp \<Rightarrow> error + OperationDescriptor" where
  "descriptor (Copy c) =
     Inr \<lparr>windowBased = False,
          operands = operandsWithRoles (Copy c),
          indexingMaps = CopyOp_indexing_maps c,
          iterators = CopyOp_iterator_types c\<rparr>"
| "descriptor (Fill f) =
     Inr \<lparr>windowBased = False,
          operands = operandsWithRoles (Fill f),
          indexingMaps = FillOp_indexing_maps f,
          iterators = FillOp_iterator_types f\<rparr>"
| "descriptor (Window w) =
     bindE (iterator_types w) (\<lambda>its.
     bindE (indexing_maps w) (\<lambda>maps.
       Inr \<lparr>windowBased = True,
            operands = operandsWithRoles (Window w),
            indexingMaps = maps,
            iterators = its\<rparr>))"
| "descriptor (Generic g) =
     Inr \<lparr>windowBased = False,
          operands = operandsWithRoles (Generic g),
          indexingMaps = indexing_maps_attr g,
          iterators = iterator_types_attr g\<rparr>"
| "descriptor (IndexedGeneric g) =
     Inr \<lparr>windowBased = False,
          operands = operandsWithRoles (IndexedGeneric g),
          indexingMaps = indexing_maps_attr g,
          iterators = iterator_types_attr g\<rparr>"

definition verifyDescriptor :: "OperationDescriptor \<Rightarrow> error + unit" where
  "verifyDescriptor d =
     (if length (indexingMaps d) \<noteq> length (operands d) then Inl OperandMapCountMismatch
      else if \<not> list_all (\<lambda>m. numDims m = length (iterators d)) (indexingMaps d)
        then Inl IteratorRankMismatch
      else if \<not> list_all (\<lambda>(m, t). length (results m) = operandRank (fst t))
                   (zip (indexingMaps d) (operands d))
        then Inl OperandRankMismatch
      else if windowBased d \<and> \<not> getNumIterators getWindowIteratorTypeName (iterators d) > 0
        then Inl NoWindowDimension
      else if \<not> list_ex (\<lambda>t. snd t = Output) (operands d) then Inl NoOutput
      else Inr ())"

definition verify :: "LinalgOp \<Rightarrow> error + unit" where
  "verify op = bindE (descriptor op) verifyDescriptor"

section \<open>Properties of the window operations\<close>

subsection \<open>Counting iterators\<close>

lemma getNumIterators_replicate:
  "getNumIterators nm (replicate n s) = (if s = nm then n else 0)"
  by (induction n) (auto simp: getNumIterators_def)

lemma getNumIterators_append:
  "getNumIterators nm (xs @ ys) = getNumIterators nm xs + getNumIterators nm ys"
  by (simp add: getNumIterators_def)

lemma getNumIterators_Cons:
  "getNumIterators nm (x # xs) = (if x = nm then 1 else 0) + getNumIterators nm xs"
  by (simp add: getNumIterators_def)

lemma getNumIterators_Nil: "getNumIterators nm [] = 0"
  by (simp add: getNumIterators_def)

lemmas count_simps = getNumIterators_append getNumIterators_replicate getNumIterators_Cons getNumIterators_Nil

lemmas itnames = getParallelIteratorTypeName_def getReductionIteratorTypeName_def getWindowIteratorTypeName_def
lemmas dimcounts = getNumBatchDimensions_def getNumInputFeatureDimensions_def getNumOutputFeatureDimensions_def

declare iterator_types.simps [simp del] indexing_maps.simps [simp del]

lemma ConvOp_iterator_types_ok:
  "2 < getRank out \<Longrightarrow>
   iterator_types (ConvOp flt inp out a) =
     Inr (replicate (getRank out) ''parallel'' @ replicate 1 ''reduction''
            @ replicate (getRank out - 2) ''window'')"
  by (simp add: iterator_types.simps Let_def itnames dimcounts)

lemma ConvOp_iterator_types_fail:
  "\<not> 2 < getRank out \<Longrightarrow> iterator_types (ConvOp flt inp out a) = Inl NoWindowDimension"
  by (simp add: iterator_types.simps Let_def itnames dimcounts)

lemma Pooling_iterator_types_eq:
  "iterator_types (SingleInputPoolingOp k inp win out a) =
     Inr (replicate (getRank out) ''parallel'' @ replicate (getRank out) ''window'')"
  by (simp add: iterator_types.simps Let_def itnames)

lemma ConvOp_getNumWindowLoops:
  "2 < getRank out \<Longrightarrow> getNumWindowLoops (ConvOp flt inp out a) = Inr (getRank out - 2)"
  by (simp add: getNumWindowLoops_def ConvOp_iterator_types_ok bindE_def
        count_simps itnames)

lemma ConvOp_getNumWindowLoops_fail:
  "\<not> 2 < getRank out \<Longrightarrow> getNumWindowLoops (ConvOp flt inp out a) = Inl NoWindowDimension"
  by (simp add: getNumWindowLoops_def ConvOp_iterator_types_fail bindE_def)

lemma Pooling_getNumWindowLoops:
  "getNumWindowLoops (SingleInputPoolingOp k inp win out a) = Inr (getRank out)"
  by (simp add: getNumWindowLoops_def Pooling_iterator_types_eq bindE_def
        count_simps itnames)

lemma Pooling_getNumParallelLoops:
  "getNumParallelLoops (SingleInputPoolingOp k inp win out a) = Inr (getRank out)"
  by (simp add: getNumParallelLoops_def Pooling_iterator_types_eq bindE_def
        count_simps itnames)

lemma accessors_in_bounds:
  assumes "getNumWindowLoops op = Inr n" and "attrsInBounds (attrs op) n" and "i < n"
  shows "\<exists>s d p. getStride op i = Inr s \<and> getDilation op i = Inr d \<and> getLowPad op i = Inr p"
  using assms
  by (auto simp: getStride_def getDilation_def getLowPad_def bindE_def attrsInBounds_def
           split: option.splits)

lemma weightedFrom_total:
  assumes "getNumWindowLoops op = Inr n" and "attrsInBounds (attrs op) n"
  shows "length xs = length zs \<Longrightarrow> i + length xs \<le> n \<Longrightarrow>
     \<exists>ws. weightedFrom op i xs zs = Inr ws \<and> length ws = length xs \<and>
       (\<forall>j < length xs. \<exists>s d p.
           getStride op (i + j) = Inr s \<and> getDilation op (i + j) = Inr d \<and>
           getLowPad op (i + j) = Inr p \<and>
           ws ! j = weightedExpr (xs ! j) (zs ! j) s d p)"
proof (induction xs zs arbitrary: i rule: list_induct2)
  case Nil
  then show ?case by simp
next
  case (Cons x xs z zs)
  from Cons.prems have "i < n" by simp
  with assms obtain s d p where
    sdp: "getStride op i = Inr s" "getDilation op i = Inr d" "getLowPad op i = Inr p"
    using accessors_in_bounds by blast
  from Cons.prems have "Suc i + length xs \<le> n" by simp
  with Cons.IH obtain ws where
    ws: "weightedFrom op (Suc i) xs zs = Inr ws" "length ws = length xs"
    and rest: "\<forall>j < length xs. \<exists>s d p.
           getStride op (Suc i + j) = Inr s \<and> getDilation op (Suc i + j) = Inr d \<and>
           getLowPad op (Suc i + j) = Inr p \<and>
           ws ! j = weightedExpr (xs ! j) (zs ! j) s d p"
    by blast
  have eq: "weightedFrom op i (x # xs) (z # zs) = Inr (weightedExpr x z s d p # ws)"
    by (simp add: sdp ws bindE_def)
  have "\<exists>s' d' p'. getStride op (i + j) = Inr s' \<and> getDilation op (i + j) = Inr d' \<and>
           getLowPad op (i + j) = Inr p' \<and>
           (weightedExpr x z s d p # ws) ! j = weightedExpr ((x # xs) ! j) ((z # zs) ! j) s' d' p'"
    if "j < length (x # xs)" for j
  proof (cases j)
    case 0
    then show ?thesis using sdp by simp
  next
    case (Suc j')
    with that have "j' < length xs" by simp
    with rest Suc show ?thesis by simp
  qed
  with eq ws(2) show ?case by simp
qed

lemma eval_weightedExpr:
  "a < length pt \<Longrightarrow> b < length pt \<Longrightarrow>
   eval_expr pt (weightedExpr (Dim a) (Dim b) s d p) = Some (pt ! a * s + pt ! b * d - p)"
  by (simp add: weightedExpr_def)


lemma makeAffineDimExprs_one: "makeAffineDimExprs 1 idx = ([Dim idx], Suc idx)"
  by (simp add: makeAffineDimExprs_def)

lemma makeAffineDimExprs_nth:
  "j < num \<Longrightarrow> fst (makeAffineDimExprs num idx) ! j = Dim (idx + j)"
  by (simp add: makeAffineDimExprs_def del: upt_Suc)

lemma makeAffineDimExprs_length: "length (fst (makeAffineDimExprs num idx)) = num"
  by (simp add: makeAffineDimExprs_def del: upt_Suc)

lemma makeAffineDimExprs_snd: "snd (makeAffineDimExprs num idx) = idx + num"
  by (simp add: makeAffineDimExprs_def)

lemma ConvOp_indexing_maps_ok:
  assumes r: "getRank out = n + 2" and pos: "0 < n" and a: "attrsInBounds a n"
  shows "\<exists>ws. indexing_maps (ConvOp flt inp out a) =
           Inr [AffineMap_get (2 * n + 3) 0
                  (fst (makeAffineDimExprs n (n + 3)) @ [Dim (n + 2)] @ [Dim (n + 1)]),
                AffineMap_get (2 * n + 3) 0 ([Dim 0] @ ws @ [Dim (n + 2)]),
                AffineMap_get (2 * n + 3) 0
                  ([Dim 0] @ fst (makeAffineDimExprs n 1) @ [Dim (n + 1)])]
         \<and> weightedPoolingInputIndex (ConvOp flt inp out a)
               (fst (makeAffineDimExprs n 1)) (fst (makeAffineDimExprs n (n + 3))) = Inr ws
         \<and> length ws = n
         \<and> (\<forall>j < n. \<exists>s d p.
               getStride (ConvOp flt inp out a) j = Inr s \<and>
               getDilation (ConvOp flt inp out a) j = Inr d \<and>
               getLowPad (ConvOp flt inp out a) j = Inr p \<and>
               ws ! j = weightedExpr (Dim (1 + j)) (Dim (n + 3 + j)) s d p)"
proof -
  let ?op = "ConvOp flt inp out a"
  define xs where "xs = fst (makeAffineDimExprs n 1)"
  define zs where "zs = fst (makeAffineDimExprs n (n + 3))"
  have len: "length xs = n" "length zs = n"
    by (simp_all add: xs_def zs_def makeAffineDimExprs_length)
  have nth: "xs ! j = Dim (1 + j)" "zs ! j = Dim (n + 3 + j)" if "j < n" for j
    using that by (simp_all add: xs_def zs_def makeAffineDimExprs_nth)
  have nw: "getNumWindowLoops ?op = Inr n"
    using ConvOp_getNumWindowLoops[of out flt inp a] r pos by simp
  have a': "attrsInBounds (attrs ?op) n"
    using a by simp
  have "\<exists>ws. weightedFrom ?op 0 xs zs = Inr ws \<and> length ws = length xs \<and>
       (\<forall>j < length xs. \<exists>s d p.
           getStride ?op (0 + j) = Inr s \<and> getDilation ?op (0 + j) = Inr d \<and>
           getLowPad ?op (0 + j) = Inr p \<and>
           ws ! j = weightedExpr (xs ! j) (zs ! j) s d p)"
    by (rule weightedFrom_total[OF nw a']) (simp_all add: len)
  then obtain ws where
    ws: "weightedFrom ?op 0 xs zs = Inr ws" "length ws = n"
    and each: "\<forall>j < n. \<exists>s d p.
           getStride ?op j = Inr s \<and> getDilation ?op j = Inr d \<and>
           getLowPad ?op j = Inr p \<and>
           ws ! j = weightedExpr (xs ! j) (zs ! j) s d p"
    by (auto simp: len)
  have mk: "makeAffineDimExprs (Suc 0) 0 = ([Dim 0], Suc 0)"
    "makeAffineDimExprs n (Suc 0) = (xs, Suc n)"
    "makeAffineDimExprs (Suc 0) (Suc n) = ([Dim (Suc n)], Suc (Suc n))"
    "makeAffineDimExprs (Suc 0) (Suc (Suc n)) = ([Dim (Suc (Suc n))], Suc (Suc (Suc n)))"
    "makeAffineDimExprs n (Suc (Suc (Suc n))) = (zs, 2 * n + 3)"
    by (simp_all add: makeAffineDimExprs_def xs_def zs_def numeral_3_eq_3)
  have maps: "indexing_maps ?op =
           Inr [AffineMap_get (2 * n + 3) 0 (zs @ [Dim (n + 2)] @ [Dim (n + 1)]),
                AffineMap_get (2 * n + 3) 0 ([Dim 0] @ ws @ [Dim (n + 2)]),
                AffineMap_get (2 * n + 3) 0 ([Dim 0] @ xs @ [Dim (n + 1)])]"
    using pos
    by (simp add: indexing_maps.simps nw bindE_def dimcounts mk weightedPoolingInputIndex_def
          ws concat_exprs_def)
  have "\<exists>s d p. getStride ?op j = Inr s \<and> getDilation ?op j = Inr d \<and>
           getLowPad ?op j = Inr p \<and>
           ws ! j = weightedExpr (Dim (1 + j)) (Dim (n + 3 + j)) s d p"
    if "j < n" for j
    using each that nth[OF that] by auto
  with maps ws show ?thesis
    unfolding xs_def zs_def weightedPoolingInputIndex_def by blast
qed



lemma accessors_default:
  assumes "getNumWindowLoops op = Inr n" and "i < n"
  shows "strides (attrs op) = None \<Longrightarrow> getStride op i = Inr 1"
    and "dilations (attrs op) = None \<Longrightarrow> getDilation op i = Inr 1"
    and "padding (attrs op) = None \<Longrightarrow> getLowPad op i = Inr 0"
    and "padding (attrs op) = None \<Longrightarrow> getHighPad op i = Inr 0"
  using assms
  by (simp_all add: getStride_def getDilation_def getLowPad_def getHighPad_def bindE_def)

lemma unsigned_sub2:
  fixes r :: nat
  assumes "2 < r" and "r < 2 ^ 32"
  shows "(r + 2 ^ 32 - 1 - 1) mod 2 ^ 32 = r - 2"
proof -
  obtain k where k: "r = k + 2"
    using assms(1) by (metis add.commute less_imp_add_positive)
  have small: "k < 2 ^ 32"
    using assms(2) k by simp
  have "r + 2 ^ 32 - 1 - 1 = k + 2 ^ 32"
    using k by simp
  then have "(r + 2 ^ 32 - 1 - 1) mod 2 ^ 32 = k mod 2 ^ 32"
    by (simp only: mod_add_self2)
  also have "\<dots> = k"
    using small by (rule mod_less)
  finally show ?thesis
    using k by simp
qed

subsection \<open>The iterator classification of a convolution\<close>

text \<open>
  Claim C4. The iterator classification of a convolution is the concatenation
  parallel \<open>\<times>\<close> (batch + spatial + output-feature dimensions), reduction \<open>\<times>\<close>
  (input-feature dimensions), window \<open>\<times>\<close> (window dimensions). The batch, input-feature
  and output-feature counts are 1, so for an output of rank above 2 it is parallel
  \<open>\<times>\<close> rank, reduction \<open>\<times>\<close> 1, window \<open>\<times>\<close> (rank - 2), and batch + spatial +
  output-feature dimensions make up the rank. At rank 2 or below there is no
  classification: the assertion fails.
\<close>

theorem ConvOp_iterator_types_layout:
  "getNumBatchDimensions = 1 \<and> getNumInputFeatureDimensions = 1 \<and>
   getNumOutputFeatureDimensions = 1 \<and>
   (2 < getRank out \<longrightarrow>
      iterator_types (ConvOp flt inp out a) =
        Inr (replicate (getRank out) ''parallel'' @ replicate 1 ''reduction''
               @ replicate (getRank out - 2) ''window'') \<and>
      getNumParallelLoops (ConvOp flt inp out a) = Inr (getRank out) \<and>
      getNumWindowLoops (ConvOp flt inp out a) = Inr (getRank out - 2) \<and>
      (getRank out < 2 ^ 32 \<longrightarrow>
         getNumBatchDimensions + getNumSpatialDimensions (ConvOp flt inp out a)
           + getNumOutputFeatureDimensions = getRank out)) \<and>
   (\<not> 2 < getRank out \<longrightarrow>
      iterator_types (ConvOp flt inp out a) = Inl NoWindowDimension)"
proof -
  have par: "getNumParallelLoops (ConvOp flt inp out a) = Inr (getRank out)"
    if "2 < getRank out"
    using that
    by (simp add: getNumParallelLoops_def ConvOp_iterator_types_ok bindE_def count_simps itnames)
  have spatial: "getNumBatchDimensions + getNumSpatialDimensions (ConvOp flt inp out a)
           + getNumOutputFeatureDimensions = getRank out"
    if "2 < getRank out" "getRank out < 2 ^ 32"
  proof -
    have "getNumSpatialDimensions (ConvOp flt inp out a) = getRank out - 2"
      unfolding getNumSpatialDimensions_def dimcounts getOutputShapedType.simps
      using that by (rule unsigned_sub2)
    then show ?thesis
      using that by (simp add: dimcounts)
  qed
  show ?thesis
    using par spatial
    by (simp add: dimcounts ConvOp_iterator_types_ok ConvOp_iterator_types_fail
          ConvOp_getNumWindowLoops)
qed

theorem ConvOp_iterator_types_layout_witness:
  "2 < getRank [Dynamic, Static 8, Static 8, Dynamic] \<and>
   getRank [Dynamic, Static 8, Static 8, Dynamic] < 2 ^ 32 \<and>
   iterator_types (ConvOp [] [] [Dynamic, Static 8, Static 8, Dynamic]
       \<lparr>strides = None, dilations = None, padding = None\<rparr>) =
     Inr [''parallel'', ''parallel'', ''parallel'', ''parallel'', ''reduction'',
          ''window'', ''window''] \<and>
   getNumSpatialDimensions (ConvOp [] [] [Dynamic, Static 8, Static 8, Dynamic]
       \<lparr>strides = None, dilations = None, padding = None\<rparr>) = 2 \<and>
   \<not> 2 < getRank [Dynamic, Dynamic] \<and>
   iterator_types (ConvOp [] [] [Dynamic, Dynamic]
       \<lparr>strides = None, dilations = None, padding = None\<rparr>) = Inl NoWindowDimension"
  using ConvOp_iterator_types_layout [of "[Dynamic, Static 8, Static 8, Dynamic]" "[]" "[]"
          "\<lparr>strides = None, dilations = None, padding = None\<rparr>"]
        ConvOp_iterator_types_layout [of "[Dynamic, Dynamic]" "[]" "[]"
          "\<lparr>strides = None, dilations = None, padding = None\<rparr>"]
  by (simp add: getRank_def)

subsection \<open>Defaults of stride, dilation and padding\<close>

text \<open>
  Claim C7. For every window operation and every window dimension \<open>i\<close>: without the
  strides attribute \<open>getStride i\<close> is 1, without the dilations attribute \<open>getDilation i\<close>
  is 1, and without the padding attribute \<open>getLowPad i\<close> and \<open>getHighPad i\<close> are 0.
\<close>

theorem window_accessor_defaults:
  "getNumWindowLoops op = Inr n \<Longrightarrow> i < n \<Longrightarrow>
   (strides (attrs op) = None \<longrightarrow> getStride op i = Inr 1) \<and>
   (dilations (attrs op) = None \<longrightarrow> getDilation op i = Inr 1) \<and>
   (padding (attrs op) = None \<longrightarrow> getLowPad op i = Inr 0 \<and> getHighPad op i = Inr 0)"
  by (simp add: accessors_default)

theorem window_accessor_defaults_witness:
  "getNumWindowLoops (SingleInputPoolingOp PoolingMax [Static 4, Static 4]
       [Static 2, Static 2] [Static 2, Static 2]
       \<lparr>strides = None, dilations = None, padding = None\<rparr>) = Inr 2 \<and> (1::nat) < 2 \<and>
   getStride (SingleInputPoolingOp PoolingMax [Static 4, Static 4]
       [Static 2, Static 2] [Static 2, Static 2]
       \<lparr>strides = None, dilations = None, padding = None\<rparr>) 1 = Inr 1 \<and>
   getDilation (SingleInputPoolingOp PoolingMax [Static 4, Static 4]
       [Static 2, Static 2] [Static 2, Static 2]
       \<lparr>strides = None, dilations = None, padding = None\<rparr>) 1 = Inr 1 \<and>
   getLowPad (SingleInputPoolingOp PoolingMax [Static 4, Static 4]
       [Static 2, Static 2] [Static 2, Static 2]
       \<lparr>strides = None, dilations = None, padding = None\<rparr>) 1 = Inr 0 \<and>
   getHighPad (SingleInputPoolingOp PoolingMax [Static 4, Static 4]
       [Static 2, Static 2] [Static 2, Static 2]
       \<lparr>strides = None, dilations = None, padding = None\<rparr>) 1 = Inr 0"
proof -
  have n: "getNumWindowLoops (SingleInputPoolingOp PoolingMax [Static 4, Static 4]
       [Static 2, Static 2] [Static 2, Static 2]
       \<lparr>strides = None, dilations = None, padding = None\<rparr>) = Inr 2"
    by (simp add: Pooling_getNumWindowLoops getRank_def)
  have i: "(1::nat) < 2" by simp
  show ?thesis
    using n i window_accessor_defaults [OF n i] by simp
qed

section \<open>Properties of the generic operations\<close>

text \<open>
  Claim C10. \<open>getLibraryCallName\<close> of a generic or indexed-generic operation always
  answers a string: the stored \<open>library_call\<close> when the attribute is set, the fixed
  string \<open>op_has_no_registered_library_name\<close> otherwise.
\<close>

theorem getLibraryCallName_total:
  "getLibraryCallName (g\<lparr>library_call := Some s\<rparr>) = s \<and>
   getLibraryCallName (g\<lparr>library_call := None\<rparr>) = ''op_has_no_registered_library_name''"
  by (simp add: getLibraryCallName_def)

section \<open>Properties of the map algebra and of copy\<close>

lemma eval_exprs_dims_from:
  "eval_exprs pt (map Dim [i ..< length pt]) = Some (drop i pt)"
proof (induction "length pt - i" arbitrary: i)
  case 0
  then show ?case by simp
next
  case (Suc k)
  then have lt: "i < length pt" by simp
  from Suc have "k = length pt - Suc i" by simp
  then have "eval_exprs pt (map Dim [Suc i ..< length pt]) = Some (drop (Suc i) pt)"
    by (rule Suc.hyps(1))
  with lt show ?case
    by (simp add: upt_conv_Cons Cons_nth_drop_Suc del: upt_Suc)
qed

lemma eval_map_identity: "length pt = r \<Longrightarrow> eval_map pt (identity r) = Some pt"
  using eval_exprs_dims_from [of pt 0] by (auto simp: eval_map_def identity_def)

lemma substDims_identity: "map (substDims rs) (map Dim [0 ..< length rs]) = rs"
  by (rule nth_equalityI) (simp_all del: upt_Suc)

lemma compose_identity:
  "length (results P) = r \<Longrightarrow> compose (identity r) P = Inr P"
  using substDims_identity [of "results P"]
  by (auto simp: compose_def identity_def)

text \<open>
  Claim C9. For every rank \<open>r\<close> and every permutation map \<open>P\<close> over \<open>[0, r)\<close>, composing
  the identity of rank \<open>r\<close> with \<open>P\<close> succeeds and gives \<open>P\<close>.
\<close>

theorem compose_identity_permutation:
  "isPermutation perm \<Longrightarrow> length perm = r \<Longrightarrow>
   \<exists>P. permutation perm = Inr P \<and> results P = map Dim perm \<and> numDims P = r \<and>
       compose (identity r) P = Inr P"
  by (simp add: permutation_def compose_identity)

theorem compose_identity_permutation_witness:
  "isPermutation [0, 2, 1] \<and> length [0::nat, 2, 1] = 3 \<and>
   (\<exists>P. permutation [0, 2, 1] = Inr P \<and> results P = [Dim 0, Dim 2, Dim 1] \<and>
        compose (identity 3) P = Inr P)"
proof -
  have p: "isPermutation [0, 2, 1]"
    by (simp add: isPermutation_def)
  have l: "length [0::nat, 2, 1] = 3"
    by simp
  show ?thesis
    using p l compose_identity_permutation [OF p l] by auto
qed

text \<open>
  Claim C8. For a copy whose input and output have the same rank, the indexing map of
  each side is the identity of that side's rank when the side has no permutation
  attribute and the supplied permutation otherwise; the iterator classification is
  parallel throughout, as long as the operand rank. The identity map sends every point
  of the iteration space to itself.
\<close>

theorem CopyOp_maps_and_iterators:
  "getRank inp = getRank out \<Longrightarrow>
   CopyOp_indexing_maps (CopyOp inp out ip op) =
     [case ip of None \<Rightarrow> identity (getRank inp) | Some m \<Rightarrow> m,
      case op of None \<Rightarrow> identity (getRank out) | Some m \<Rightarrow> m] \<and>
   CopyOp_iterator_types (CopyOp inp out ip op) = replicate (getRank out) ''parallel'' \<and>
   length (CopyOp_iterator_types (CopyOp inp out ip op)) = getRank inp \<and>
   (\<forall>pt. length pt = getRank inp \<longrightarrow> eval_map pt (identity (getRank inp)) = Some pt)"
  by (simp add: extractOrIdentityMap_def itnames eval_map_identity split: option.splits)

theorem CopyOp_maps_and_iterators_witness:
  "getRank [Dynamic, Dynamic, Dynamic] = getRank [Static 2, Static 3, Static 4] \<and>
   CopyOp_indexing_maps (CopyOp [Dynamic, Dynamic, Dynamic] [Static 2, Static 3, Static 4]
       None (Some \<lparr>numDims = 3, numSymbols = 0, results = [Dim 2, Dim 1, Dim 0]\<rparr>)) =
     [identity 3, \<lparr>numDims = 3, numSymbols = 0, results = [Dim 2, Dim 1, Dim 0]\<rparr>] \<and>
   CopyOp_iterator_types (CopyOp [Dynamic, Dynamic, Dynamic] [Static 2, Static 3, Static 4]
       None (Some \<lparr>numDims = 3, numSymbols = 0, results = [Dim 2, Dim 1, Dim 0]\<rparr>)) =
     [''parallel'', ''parallel'', ''parallel''] \<and>
   eval_map [5, 6, 7] (identity 3) = Some [5, 6, 7]"
proof -
  have r: "getRank [Dynamic, Dynamic, Dynamic] = getRank [Static 2, Static 3, Static 4]"
    by (simp add: getRank_def)
  have three: "getRank [Dynamic, Dynamic, Dynamic] = 3"
    by (simp add: getRank_def)
  show ?thesis
    using r CopyOp_maps_and_iterators [OF r, of None
        "Some \<lparr>numDims = 3, numSymbols = 0, results = [Dim 2, Dim 1, Dim 0]\<rparr>"]
    by (simp add: three[symmetric] getRank_def del: CopyOp_indexing_maps.simps CopyOp_iterator_types.simps)
qed

section \<open>Properties of the verifier\<close>

lemma accessors_not_NoWindowDimension:
  assumes "getNumWindowLoops op = Inr n"
  shows "getStride op i \<noteq> Inl NoWindowDimension"
    and "getDilation op i \<noteq> Inl NoWindowDimension"
    and "getLowPad op i \<noteq> Inl NoWindowDimension"
  using assms
  by (simp_all add: getStride_def getDilation_def getLowPad_def bindE_def split: option.splits)

lemma weightedFrom_not_NoWindowDimension:
  "getNumWindowLoops op = Inr n \<Longrightarrow> weightedFrom op i xs zs \<noteq> Inl NoWindowDimension"
proof (induction op i xs zs rule: weightedFrom.induct)
  case (1 op i x xs z zs)
  then show ?case
    using accessors_not_NoWindowDimension [of op n i]
    by (auto simp: bindE_def split: sum.splits)
qed simp_all

lemma bindE_Inr: "bindE (Inr v) f = f v"
  by (simp add: bindE_def)

lemma bindE_Inl: "bindE (Inl e) f = Inl e"
  by (simp add: bindE_def)

lemma bindE_neq_Inl: "r \<noteq> Inl e \<Longrightarrow> (\<And>v. f v \<noteq> Inl e) \<Longrightarrow> bindE r f \<noteq> Inl e"
  by (cases r) (simp_all add: bindE_def)

lemma ConvOp_indexing_maps_fail:
  "\<not> 2 < getRank out \<Longrightarrow> indexing_maps (ConvOp flt inp out a) = Inl NoWindowDimension"
  by (simp add: indexing_maps.simps ConvOp_getNumWindowLoops_fail bindE_Inl)

lemma ConvOp_indexing_maps_not_NoWindowDimension:
  assumes "2 < getRank out"
  shows "indexing_maps (ConvOp flt inp out a) \<noteq> Inl NoWindowDimension"
proof -
  let ?op = "ConvOp flt inp out a"
  have nw: "getNumWindowLoops ?op = Inr (getRank out - 2)"
    using assms by (rule ConvOp_getNumWindowLoops)
  have w: "weightedPoolingInputIndex ?op xs zs \<noteq> Inl NoWindowDimension" for xs zs
    using weightedFrom_not_NoWindowDimension [OF nw]
    by (simp add: weightedPoolingInputIndex_def)
  show ?thesis
    using assms
    by (simp add: indexing_maps.simps nw bindE_Inr Let_def case_prod_beta)
       (rule bindE_neq_Inl, rule w, simp)
qed

text \<open>
  Claim C2. A convolution whose output rank is at most 2 (batch plus input-feature
  dimensions) fails verification with \<open>NoWindowDimension\<close>: \<open>iterator_types\<close> and
  \<open>indexing_maps\<close> stop at their assertion and build nothing. When the output
  rank is above 2 the assertion holds in both: \<open>iterator_types\<close> returns, there are
  rank - 2 window loops, and neither \<open>indexing_maps\<close> nor the verifier answers
  \<open>NoWindowDimension\<close>.
\<close>

theorem ConvOp_rank_limit:
  "(\<not> 2 < getRank out \<longrightarrow>
      verify (Window (ConvOp flt inp out a)) = Inl NoWindowDimension \<and>
      iterator_types (ConvOp flt inp out a) = Inl NoWindowDimension \<and>
      indexing_maps (ConvOp flt inp out a) = Inl NoWindowDimension) \<and>
   (2 < getRank out \<longrightarrow>
      (\<exists>its. iterator_types (ConvOp flt inp out a) = Inr its) \<and>
      getNumWindowLoops (ConvOp flt inp out a) = Inr (getRank out - 2) \<and>
      indexing_maps (ConvOp flt inp out a) \<noteq> Inl NoWindowDimension \<and>
      verify (Window (ConvOp flt inp out a)) \<noteq> Inl NoWindowDimension)"
proof -
  let ?op = "ConvOp flt inp out a"
  have low: "verify (Window ?op) = Inl NoWindowDimension" if "\<not> 2 < getRank out"
    using that by (simp add: verify_def bindE_def ConvOp_iterator_types_fail)
  have maps: "indexing_maps ?op \<noteq> Inl NoWindowDimension" if "2 < getRank out"
    using that by (rule ConvOp_indexing_maps_not_NoWindowDimension)
  have high: "verify (Window ?op) \<noteq> Inl NoWindowDimension" if "2 < getRank out"
  proof (cases "indexing_maps ?op")
    case (Inl e)
    with maps [OF that] show ?thesis
      using that by (simp add: verify_def bindE_def ConvOp_iterator_types_ok)
  next
    case (Inr ms)
    have "getNumIterators getWindowIteratorTypeName
            (replicate (getRank out) ''parallel'' @ replicate 1 ''reduction''
               @ replicate (getRank out - 2) ''window'') > 0"
      using that by (simp add: count_simps itnames)
    with Inr show ?thesis
      using that
      by (simp add: verify_def bindE_def ConvOp_iterator_types_ok verifyDescriptor_def)
  qed
  show ?thesis
    using low maps high
    by (simp add: ConvOp_iterator_types_ok ConvOp_iterator_types_fail
          ConvOp_indexing_maps_fail ConvOp_getNumWindowLoops)
qed

theorem ConvOp_rank_limit_witness:
  "\<not> 2 < getRank [Dynamic, Dynamic] \<and>
   verify (Window (ConvOp [Dynamic, Dynamic] [Dynamic, Dynamic] [Dynamic, Dynamic]
       \<lparr>strides = None, dilations = None, padding = None\<rparr>)) = Inl NoWindowDimension \<and>
   indexing_maps (ConvOp [Dynamic, Dynamic] [Dynamic, Dynamic] [Dynamic, Dynamic]
       \<lparr>strides = None, dilations = None, padding = None\<rparr>) = Inl NoWindowDimension \<and>
   2 < getRank [Dynamic, Dynamic, Dynamic] \<and>
   indexing_maps (ConvOp [Dynamic, Dynamic, Dynamic] [Dynamic, Dynamic, Dynamic]
       [Dynamic, Dynamic, Dynamic] \<lparr>strides = None, dilations = None, padding = None\<rparr>)
     \<noteq> Inl NoWindowDimension \<and>
   verify (Window (ConvOp [Dynamic, Dynamic, Dynamic] [Dynamic, Dynamic, Dynamic]
       [Dynamic, Dynamic, Dynamic] \<lparr>strides = None, dilations = None, padding = None\<rparr>))
     \<noteq> Inl NoWindowDimension"
  using ConvOp_rank_limit [of "[Dynamic, Dynamic]" "[Dynamic, Dynamic]" "[Dynamic, Dynamic]"
          "\<lparr>strides = None, dilations = None, padding = None\<rparr>"]
        ConvOp_rank_limit [of "[Dynamic, Dynamic, Dynamic]" "[Dynamic, Dynamic, Dynamic]"
          "[Dynamic, Dynamic, Dynamic]" "\<lparr>strides = None, dilations = None, padding = None\<rparr>"]
  by (simp add: getRank_def)

subsection \<open>The count of indexing maps\<close>

lemma verifyDescriptor_count:
  "verifyDescriptor d = Inl OperandMapCountMismatch \<longleftrightarrow>
   length (indexingMaps d) \<noteq> length (operands d)"
  by (simp add: verifyDescriptor_def)

lemma FillOp_indexing_maps_eq:
  "FillOp_indexing_maps (FillOp out v) = [identity (getRank out)]"
  by (simp add: extractOrIdentityMap_def count_simps itnames)

lemma operandsWithRoles_Fill:
  "operandsWithRoles (Fill (FillOp out v)) = [(ShapedOperand out, Output)]"
  by (simp add: operandsWithRoles_def take_front_def)

lemma operandsWithRoles_Copy:
  "operandsWithRoles (Copy (CopyOp inp out ip op)) =
     [(ShapedOperand inp, Input), (ShapedOperand out, Output)]"
  by (simp add: operandsWithRoles_def take_front_def take_back_def)

lemma operandsWithRoles_Window:
  "operandsWithRoles (Window (ConvOp flt inp out a)) =
     [(ShapedOperand flt, Input), (ShapedOperand inp, Input), (ShapedOperand out, Output)]"
  "operandsWithRoles (Window (SingleInputPoolingOp k inp win out a)) =
     [(ShapedOperand inp, Input), (ShapedOperand win, Input), (ShapedOperand out, Output)]"
  by (simp_all add: operandsWithRoles_def slice_def take_back_def)

lemma operandsWithRoles_Generic:
  "length (operandsWithRoles (Generic g)) = length (inputs g) + length (outputs g)"
  "length (operandsWithRoles (IndexedGeneric g)) = length (inputs g) + length (outputs g)"
  by (simp_all add: operandsWithRoles_def)

lemma indexing_maps_three:
  "indexing_maps w = Inr maps \<Longrightarrow> length maps = 3"
  by (cases w)
     (auto simp: indexing_maps.simps bindE_def Let_def case_prod_beta
           split: sum.splits if_splits)

lemma verify_Fill: "verify (Fill (FillOp out v)) = Inr ()"
  by (simp add: verify_def bindE_Inr verifyDescriptor_def operandsWithRoles_Fill
        FillOp_indexing_maps_eq identity_def itnames
        del: FillOp_indexing_maps.simps)

lemma descriptor_counts_named:
  "descriptor (Copy c) = Inr d \<Longrightarrow> length (indexingMaps d) = length (operands d)"
  "descriptor (Fill f) = Inr d \<Longrightarrow> length (indexingMaps d) = length (operands d)"
  "descriptor (Window w) = Inr d \<Longrightarrow> length (indexingMaps d) = length (operands d)"
proof -
  show "descriptor (Copy c) = Inr d \<Longrightarrow> length (indexingMaps d) = length (operands d)"
    by (cases c) (auto simp: operandsWithRoles_Copy)
  show "descriptor (Fill f) = Inr d \<Longrightarrow> length (indexingMaps d) = length (operands d)"
    by (cases f) (auto simp: operandsWithRoles_Fill)
  show "descriptor (Window w) = Inr d \<Longrightarrow> length (indexingMaps d) = length (operands d)"
    by (cases w)
       (auto simp: bindE_def operandsWithRoles_Window dest: indexing_maps_three
             split: sum.splits)
qed


lemma iterator_types_error: "iterator_types w \<noteq> Inl OperandMapCountMismatch"
  by (cases w) (simp_all add: iterator_types.simps Let_def)

lemma loop_count_errors:
  "getNumWindowLoops w \<noteq> Inl OperandMapCountMismatch"
  "getNumParallelLoops w \<noteq> Inl OperandMapCountMismatch"
  unfolding getNumWindowLoops_def getNumParallelLoops_def
  by (rule bindE_neq_Inl [OF iterator_types_error], simp)+

lemma accessor_errors:
  "getStride w i \<noteq> Inl OperandMapCountMismatch"
  "getDilation w i \<noteq> Inl OperandMapCountMismatch"
  "getLowPad w i \<noteq> Inl OperandMapCountMismatch"
  unfolding getStride_def getDilation_def getLowPad_def
  by (rule bindE_neq_Inl [OF loop_count_errors(1)], simp split: option.splits)+

lemma weightedFrom_error: "weightedFrom w i xs zs \<noteq> Inl OperandMapCountMismatch"
proof (induction w i xs zs rule: weightedFrom.induct)
  case (1 op i x xs z zs)
  then show ?case
    using accessor_errors [of op i]
    by (auto simp: bindE_def split: sum.splits)
qed simp_all

lemma indexing_maps_error: "indexing_maps w \<noteq> Inl OperandMapCountMismatch"
proof (cases w)
  case (ConvOp flt inp out a)
  show ?thesis
    unfolding ConvOp indexing_maps.simps
    by (rule bindE_neq_Inl [OF loop_count_errors(1)])
       (simp add: Let_def case_prod_beta weightedPoolingInputIndex_def bindE_neq_Inl
          weightedFrom_error)
next
  case (SingleInputPoolingOp k inp win out a)
  show ?thesis
    unfolding SingleInputPoolingOp indexing_maps.simps
    by (rule bindE_neq_Inl [OF loop_count_errors(2)],
        rule bindE_neq_Inl [OF loop_count_errors(1)])
       (simp add: Let_def case_prod_beta weightedPoolingInputIndex_def bindE_neq_Inl
          weightedFrom_error)
qed

lemma verify_named_not_count:
  "verify (Copy c) \<noteq> Inl OperandMapCountMismatch"
  "verify (Fill f) \<noteq> Inl OperandMapCountMismatch"
  "verify (Window w) \<noteq> Inl OperandMapCountMismatch"
proof -
  show "verify (Copy c) \<noteq> Inl OperandMapCountMismatch"
    using descriptor_counts_named(1) [of c]
    by (simp add: verify_def bindE_Inr verifyDescriptor_count)
  show "verify (Fill f) \<noteq> Inl OperandMapCountMismatch"
    using descriptor_counts_named(2) [of f]
    by (simp add: verify_def bindE_Inr verifyDescriptor_count)
  show "verify (Window w) \<noteq> Inl OperandMapCountMismatch"
  proof (cases "descriptor (Window w)")
    case (Inl e)
    then have "e \<noteq> OperandMapCountMismatch"
      using iterator_types_error [of w] indexing_maps_error [of w]
      by (auto simp: bindE_def split: sum.splits)
    with Inl show ?thesis
      by (simp add: verify_def bindE_Inl)
  next
    case (Inr d)
    with descriptor_counts_named(3) [OF Inr] show ?thesis
      by (simp add: verify_def bindE_Inr verifyDescriptor_count)
  qed
qed

lemma verify_Generic_count:
  "verify (Generic g) = Inl OperandMapCountMismatch \<longleftrightarrow>
     length (indexing_maps_attr g) \<noteq> length (inputs g) + length (outputs g)"
  "verify (IndexedGeneric g) = Inl OperandMapCountMismatch \<longleftrightarrow>
     length (indexing_maps_attr g) \<noteq> length (inputs g) + length (outputs g)"
  by (simp_all add: verify_def bindE_Inr verifyDescriptor_count operandsWithRoles_Generic)

text \<open>
  Claim C3, as amended. Verification rejects with \<open>OperandMapCountMismatch\<close> exactly the
  descriptors whose number of indexing maps differs from their number of operands,
  whatever operation built them; the operands of a descriptor are the inputs and the
  outputs of the operation. A generic or indexed-generic operation is rejected this
  way exactly when the number of its indexing maps differs from the number of its
  inputs plus outputs. Copy, fill, convolution and pooling always have as many maps as
  inputs and outputs, and are never rejected this way. A fill has the operands (output,
  scalar value), but the scalar value is neither an input nor an output: the only
  operand of its descriptor is the output, its only indexing map is the identity on the
  output, and verification accepts it.
\<close>

theorem verify_map_count_check:
  "(verifyDescriptor d = Inl OperandMapCountMismatch \<longleftrightarrow>
      length (indexingMaps d) \<noteq> length (operands d)) \<and>
   (descriptor op = Inr d \<longrightarrow> length (indexingMaps d) \<noteq> length (operands d) \<longrightarrow>
      verify op = Inl OperandMapCountMismatch) \<and>
   (verify (Generic g) = Inl OperandMapCountMismatch \<longleftrightarrow>
      length (indexing_maps_attr g) \<noteq> length (inputs g) + length (outputs g)) \<and>
   (verify (IndexedGeneric g) = Inl OperandMapCountMismatch \<longleftrightarrow>
      length (indexing_maps_attr g) \<noteq> length (inputs g) + length (outputs g)) \<and>
   verify (Copy c) \<noteq> Inl OperandMapCountMismatch \<and>
   verify (Fill f) \<noteq> Inl OperandMapCountMismatch \<and>
   verify (Window w) \<noteq> Inl OperandMapCountMismatch \<and>
   getOperands (Fill (FillOp out v)) = [ShapedOperand out, ScalarOperand v] \<and>
   inputs_of (Fill (FillOp out v)) = [] \<and>
   outputs_of (Fill (FillOp out v)) = [ShapedOperand out] \<and>
   (\<exists>fd. descriptor (Fill (FillOp out v)) = Inr fd \<and>
      operands fd = [(ShapedOperand out, Output)] \<and>
      indexingMaps fd = [identity (getRank out)] \<and>
      verify (Fill (FillOp out v)) = Inr ())"
proof -
  have general: "verify op = Inl OperandMapCountMismatch"
    if "descriptor op = Inr d" "length (indexingMaps d) \<noteq> length (operands d)"
    using that by (simp add: verify_def bindE_Inr verifyDescriptor_count)
  have fill: "\<exists>fd. descriptor (Fill (FillOp out v)) = Inr fd \<and>
      operands fd = [(ShapedOperand out, Output)] \<and>
      indexingMaps fd = [identity (getRank out)] \<and>
      verify (Fill (FillOp out v)) = Inr ()"
    by (simp add: operandsWithRoles_Fill FillOp_indexing_maps_eq verify_Fill
          del: FillOp_indexing_maps.simps)
  show ?thesis
    using general fill
    by (simp add: verifyDescriptor_count verify_Generic_count verify_named_not_count
          take_front_def del: descriptor.simps)
qed

theorem verify_map_count_check_witness:
  "descriptor (Generic \<lparr>inputs = [[Dynamic]], outputs = [[Dynamic]],
        indexing_maps_attr = [identity 1], iterator_types_attr = [''parallel''],
        doc = None, library_call = None, sparse = None\<rparr>) =
     Inr \<lparr>windowBased = False,
          operands = [(ShapedOperand [Dynamic], Input), (ShapedOperand [Dynamic], Output)],
          indexingMaps = [identity 1], iterators = [''parallel'']\<rparr> \<and>
   length (indexingMaps \<lparr>windowBased = False,
          operands = [(ShapedOperand [Dynamic], Input), (ShapedOperand [Dynamic], Output)],
          indexingMaps = [identity 1], iterators = [''parallel'']\<rparr>) \<noteq>
   length (operands \<lparr>windowBased = False,
          operands = [(ShapedOperand [Dynamic], Input), (ShapedOperand [Dynamic], Output)],
          indexingMaps = [identity 1], iterators = [''parallel'']\<rparr>) \<and>
   verifyDescriptor \<lparr>windowBased = False,
          operands = [(ShapedOperand [Dynamic], Input), (ShapedOperand [Dynamic], Output)],
          indexingMaps = [identity 1], iterators = [''parallel'']\<rparr> =
     Inl OperandMapCountMismatch \<and>
   verify (Generic \<lparr>inputs = [[Dynamic]], outputs = [[Dynamic]],
        indexing_maps_attr = [identity 1], iterator_types_attr = [''parallel''],
        doc = None, library_call = None, sparse = None\<rparr>) = Inl OperandMapCountMismatch \<and>
   verify (IndexedGeneric \<lparr>inputs = [[Dynamic]], outputs = [[Dynamic]],
        indexing_maps_attr = [identity 1], iterator_types_attr = [''parallel''],
        doc = None, library_call = None, sparse = None\<rparr>) = Inl OperandMapCountMismatch \<and>
   verify (Fill (FillOp [Dynamic, Dynamic] AnyFloat)) = Inr ()"
  using verify_map_count_check [of
      "\<lparr>windowBased = False,
          operands = [(ShapedOperand [Dynamic], Input), (ShapedOperand [Dynamic], Output)],
          indexingMaps = [identity 1], iterators = [''parallel'']\<rparr>"
      "Generic \<lparr>inputs = [[Dynamic]], outputs = [[Dynamic]],
        indexing_maps_attr = [identity 1], iterator_types_attr = [''parallel''],
        doc = None, library_call = None, sparse = None\<rparr>"
      "\<lparr>inputs = [[Dynamic]], outputs = [[Dynamic]],
        indexing_maps_attr = [identity 1], iterator_types_attr = [''parallel''],
        doc = None, library_call = None, sparse = None\<rparr>"
      c f w "[Dynamic, Dynamic]" AnyFloat]
  by (simp add: operandsWithRoles_def)

text \<open>
  The claim as it was stated counts the scalar value among the operands that need an
  indexing map, so that a fill, with two operands and one map, would be rejected. A
  fill of a rank-2 output has one operand in its descriptor and passes verification.
\<close>

theorem fill_map_count_counterexample:
  "getOperands (Fill (FillOp [Dynamic, Dynamic] AnyFloat)) =
     [ShapedOperand [Dynamic, Dynamic], ScalarOperand AnyFloat] \<and>
   descriptor (Fill (FillOp [Dynamic, Dynamic] AnyFloat)) =
     Inr \<lparr>windowBased = False,
          operands = [(ShapedOperand [Dynamic, Dynamic], Output)],
          indexingMaps = [identity 2],
          iterators = [''parallel'', ''parallel'']\<rparr> \<and>
   verify (Fill (FillOp [Dynamic, Dynamic] AnyFloat)) = Inr () \<and>
   verify (Fill (FillOp [Dynamic, Dynamic] AnyFloat)) \<noteq> Inl OperandMapCountMismatch"
  by (simp add: operandsWithRoles_Fill FillOp_indexing_maps_eq verify_Fill getRank_def itnames
        numeral_2_eq_2 del: FillOp_indexing_maps.simps)

section \<open>The indexing maps of the window operations\<close>

lemma Pooling_indexing_maps_ok:
  assumes r: "getRank out = n" and pos: "0 < n" and a: "attrsInBounds a n"
  shows "\<exists>ws. indexing_maps (SingleInputPoolingOp k inp win out a) =
           Inr [AffineMap_get (2 * n) 0 ws,
                AffineMap_get (2 * n) 0 (fst (makeAffineDimExprs n n)),
                AffineMap_get (2 * n) 0 (fst (makeAffineDimExprs n 0))]
         \<and> weightedPoolingInputIndex (SingleInputPoolingOp k inp win out a)
               (fst (makeAffineDimExprs n 0)) (fst (makeAffineDimExprs n n)) = Inr ws
         \<and> length ws = n
         \<and> (\<forall>j < n. \<exists>s d p.
               getStride (SingleInputPoolingOp k inp win out a) j = Inr s \<and>
               getDilation (SingleInputPoolingOp k inp win out a) j = Inr d \<and>
               getLowPad (SingleInputPoolingOp k inp win out a) j = Inr p \<and>
               ws ! j = weightedExpr (Dim j) (Dim (n + j)) s d p)"
proof -
  let ?op = "SingleInputPoolingOp k inp win out a"
  define xs where "xs = fst (makeAffineDimExprs n 0)"
  define zs where "zs = fst (makeAffineDimExprs n n)"
  have len: "length xs = n" "length zs = n"
    by (simp_all add: xs_def zs_def makeAffineDimExprs_length)
  have nth: "xs ! j = Dim j" "zs ! j = Dim (n + j)" if "j < n" for j
    using that by (simp_all add: xs_def zs_def makeAffineDimExprs_nth)
  have nw: "getNumWindowLoops ?op = Inr n"
    using Pooling_getNumWindowLoops [of k inp win out a] r by simp
  have np: "getNumParallelLoops ?op = Inr n"
    using Pooling_getNumParallelLoops [of k inp win out a] r by simp
  have a': "attrsInBounds (attrs ?op) n"
    using a by simp
  have "\<exists>ws. weightedFrom ?op 0 xs zs = Inr ws \<and> length ws = length xs \<and>
       (\<forall>j < length xs. \<exists>s d p.
           getStride ?op (0 + j) = Inr s \<and> getDilation ?op (0 + j) = Inr d \<and>
           getLowPad ?op (0 + j) = Inr p \<and>
           ws ! j = weightedExpr (xs ! j) (zs ! j) s d p)"
    by (rule weightedFrom_total[OF nw a']) (simp_all add: len)
  then obtain ws where
    ws: "weightedFrom ?op 0 xs zs = Inr ws" "length ws = n"
    and each: "\<forall>j < n. \<exists>s d p.
           getStride ?op j = Inr s \<and> getDilation ?op j = Inr d \<and>
           getLowPad ?op j = Inr p \<and>
           ws ! j = weightedExpr (xs ! j) (zs ! j) s d p"
    by (auto simp: len)
  have mk: "makeAffineDimExprs n 0 = (xs, n)" "makeAffineDimExprs n n = (zs, 2 * n)"
    by (simp_all add: makeAffineDimExprs_def xs_def zs_def)
  have maps: "indexing_maps ?op =
           Inr [AffineMap_get (2 * n) 0 ws, AffineMap_get (2 * n) 0 zs,
                AffineMap_get (2 * n) 0 xs]"
    using pos
    by (simp add: indexing_maps.simps nw np bindE_def mk weightedPoolingInputIndex_def ws)
  have "\<exists>s d p. getStride ?op j = Inr s \<and> getDilation ?op j = Inr d \<and>
           getLowPad ?op j = Inr p \<and>
           ws ! j = weightedExpr (Dim j) (Dim (n + j)) s d p"
    if "j < n" for j
    using each that nth[OF that] by auto
  with maps ws show ?thesis
    unfolding xs_def zs_def weightedPoolingInputIndex_def by blast
qed

lemma Pooling_indexing_maps_fail:
  "getRank out = 0 \<Longrightarrow>
   indexing_maps (SingleInputPoolingOp k inp win out a) = Inl NoWindowDimension"
  by (simp add: indexing_maps.simps Pooling_getNumWindowLoops Pooling_getNumParallelLoops
        bindE_Inr)

lemma makeAffineDimExprs_fst: "fst (makeAffineDimExprs num idx) = map Dim [idx ..< idx + num]"
  by (simp add: makeAffineDimExprs_def)


lemma dims_ranges:
  "fst (makeAffineDimExprs n 1) = map Dim [1 ..< n + 1]"
  "fst (makeAffineDimExprs n (n + 3)) = map Dim [n + 3 ..< 2 * n + 3]"
  "fst (makeAffineDimExprs n 0) = map Dim [0 ..< n]"
  "fst (makeAffineDimExprs n n) = map Dim [n ..< 2 * n]"
proof -
  have "1 + n = n + 1" "n + 3 + n = 2 * n + 3" "n + n = 2 * n"
    by simp_all
  then show "fst (makeAffineDimExprs n 1) = map Dim [1 ..< n + 1]"
    "fst (makeAffineDimExprs n (n + 3)) = map Dim [n + 3 ..< 2 * n + 3]"
    "fst (makeAffineDimExprs n 0) = map Dim [0 ..< n]"
    "fst (makeAffineDimExprs n n) = map Dim [n ..< 2 * n]"
    by (simp_all only: makeAffineDimExprs_fst add_0)
qed

text \<open>
  Claim C5. For a convolution (output rank \<open>n + 2\<close> with \<open>n\<close> window dimensions, the
  attributes covering them) \<open>indexing_maps\<close> returns exactly three maps, for the filter,
  the input and the output in this order. The iteration dimensions are allocated in
  the order batch (\<open>0\<close>), spatial (\<open>1 .. n\<close>), output feature (\<open>n + 1\<close>), input feature
  (\<open>n + 2\<close>, the reduction), window (\<open>n + 3 .. 2n + 2\<close>). The filter map has the window
  dimensions, the input feature and the output feature as results; the input map the
  batch dimension, the weighted window expressions and the input feature; the output
  map the batch dimension, the spatial dimensions and the output feature. The three
  maps have the same domain rank, the length of the iterator classification.
\<close>

theorem ConvOp_indexing_maps_layout:
  "getRank out = n + 2 \<Longrightarrow> 0 < n \<Longrightarrow> attrsInBounds a n \<Longrightarrow>
   \<exists>filterMap inputMap outputMap ws its.
     indexing_maps (ConvOp flt inp out a) = Inr [filterMap, inputMap, outputMap] \<and>
     iterator_types (ConvOp flt inp out a) = Inr its \<and>
     weightedPoolingInputIndex (ConvOp flt inp out a)
       (map Dim [1 ..< n + 1]) (map Dim [n + 3 ..< 2 * n + 3]) = Inr ws \<and>
     length ws = n \<and>
     results filterMap = map Dim [n + 3 ..< 2 * n + 3] @ [Dim (n + 2)] @ [Dim (n + 1)] \<and>
     results inputMap = [Dim 0] @ ws @ [Dim (n + 2)] \<and>
     results outputMap = [Dim 0] @ map Dim [1 ..< n + 1] @ [Dim (n + 1)] \<and>
     numDims filterMap = length its \<and> numDims inputMap = length its \<and> numDims outputMap = length its \<and>
     its = replicate 1 ''parallel'' @ replicate n ''parallel'' @ replicate 1 ''parallel''
             @ replicate 1 ''reduction'' @ replicate n ''window''"
proof -
  assume r: "getRank out = n + 2" and pos: "0 < n" and a: "attrsInBounds a n"
  let ?op = "ConvOp flt inp out a"
  let ?its = "replicate 1 ''parallel'' @ replicate n ''parallel'' @ replicate 1 ''parallel''
             @ replicate 1 ''reduction'' @ replicate n ''window''"
  from ConvOp_indexing_maps_ok [OF r pos a, of flt inp] obtain ws where
    maps: "indexing_maps ?op =
           Inr [AffineMap_get (2 * n + 3) 0
                  (map Dim [n + 3 ..< 2 * n + 3] @ [Dim (n + 2)] @ [Dim (n + 1)]),
                AffineMap_get (2 * n + 3) 0 ([Dim 0] @ ws @ [Dim (n + 2)]),
                AffineMap_get (2 * n + 3) 0
                  ([Dim 0] @ map Dim [1 ..< n + 1] @ [Dim (n + 1)])]"
    and w: "weightedPoolingInputIndex ?op
               (map Dim [1 ..< n + 1]) (map Dim [n + 3 ..< 2 * n + 3]) = Inr ws"
    and len: "length ws = n"
    unfolding dims_ranges by blast
  have "2 < getRank out"
    using r pos by simp
  then have "iterator_types ?op =
     Inr (replicate (getRank out) ''parallel'' @ replicate 1 ''reduction''
            @ replicate (getRank out - 2) ''window'')"
    by (rule ConvOp_iterator_types_ok)
  then have its: "iterator_types ?op = Inr ?its"
    by (simp add: r replicate_add [symmetric] del: replicate_Suc)
  have l: "length ?its = 2 * n + 3"
    by simp
  show ?thesis
    using maps its w len l
    by (simp add: AffineMap_get_def del: upt_Suc replicate_Suc)
qed


theorem ConvOp_indexing_maps_layout_witness:
  "getRank [Dynamic, Static 8, Static 8, Dynamic] = 2 + 2 \<and> (0::nat) < 2 \<and>
   attrsInBounds \<lparr>strides = Some [2, 2], dilations = None, padding = None\<rparr> 2 \<and>
   (\<exists>filterMap inputMap outputMap.
      indexing_maps (ConvOp [Static 3, Static 3, Dynamic, Dynamic]
          [Dynamic, Static 17, Static 17, Dynamic] [Dynamic, Static 8, Static 8, Dynamic]
          \<lparr>strides = Some [2, 2], dilations = None, padding = None\<rparr>) =
        Inr [filterMap, inputMap, outputMap] \<and>
      results filterMap = [Dim 5, Dim 6, Dim 4, Dim 3] \<and>
      results outputMap = [Dim 0, Dim 1, Dim 2, Dim 3] \<and>
      length (results inputMap) = 4 \<and>
      numDims filterMap = 7 \<and> numDims inputMap = 7 \<and> numDims outputMap = 7)"
proof -
  have r: "getRank [Dynamic, Static 8, Static 8, Dynamic] = 2 + 2"
    by (simp add: getRank_def)
  have pos: "(0::nat) < 2"
    by simp
  have a: "attrsInBounds \<lparr>strides = Some [2, 2], dilations = None, padding = None\<rparr> 2"
    by (simp add: attrsInBounds_def)
  have up: "[2 + 3 ..< 2 * 2 + 3] = [5, 6 :: nat]" "[1 ..< 2 + 1] = [1, 2 :: nat]"
    by (simp_all add: upt_rec)
  show ?thesis
    using r pos a
      ConvOp_indexing_maps_layout [OF r pos a, of "[Static 3, Static 3, Dynamic, Dynamic]"
        "[Dynamic, Static 17, Static 17, Dynamic]"]
    unfolding up by auto
qed

text \<open>
  Claim C6. For a single-input pooling operation (max, min or sum) the iterator
  classification is parallel \<open>\<times>\<close> rank followed by window \<open>\<times>\<close> rank of the output, so
  there are as many window loops as output dimensions; and, when the output has at
  least one dimension and the attributes cover them, \<open>indexing_maps\<close> returns three
  maps, for input, windowDims and output in this order: the input map holds the
  weighted expressions built from the output dimensions and the window dimensions, the
  windowDims map selects the window dimensions, the output map the output dimensions.
  With an output of rank 0 the assertion of \<open>indexing_maps\<close> fails.
\<close>

theorem Pooling_iterators_and_maps:
  "iterator_types (SingleInputPoolingOp k inp win out a) =
     Inr (replicate (getRank out) ''parallel'' @ replicate (getRank out) ''window'') \<and>
   getNumParallelLoops (SingleInputPoolingOp k inp win out a) = Inr (getRank out) \<and>
   getNumWindowLoops (SingleInputPoolingOp k inp win out a) = Inr (getRank out) \<and>
   (getRank out = n \<longrightarrow> 0 < n \<longrightarrow> attrsInBounds a n \<longrightarrow>
      (\<exists>inputDims.
         weightedPoolingInputIndex (SingleInputPoolingOp k inp win out a)
           (map Dim [0 ..< n]) (map Dim [n ..< 2 * n]) = Inr inputDims \<and>
         length inputDims = n \<and>
         (\<forall>j < n. \<exists>s d p.
            getStride (SingleInputPoolingOp k inp win out a) j = Inr s \<and>
            getDilation (SingleInputPoolingOp k inp win out a) j = Inr d \<and>
            getLowPad (SingleInputPoolingOp k inp win out a) j = Inr p \<and>
            inputDims ! j = weightedExpr (Dim j) (Dim (n + j)) s d p) \<and>
         indexing_maps (SingleInputPoolingOp k inp win out a) =
           Inr [\<lparr>numDims = 2 * n, numSymbols = 0, results = inputDims\<rparr>,
                \<lparr>numDims = 2 * n, numSymbols = 0, results = map Dim [n ..< 2 * n]\<rparr>,
                \<lparr>numDims = 2 * n, numSymbols = 0, results = map Dim [0 ..< n]\<rparr>])) \<and>
   (getRank out = 0 \<longrightarrow>
      indexing_maps (SingleInputPoolingOp k inp win out a) = Inl NoWindowDimension)"
proof -
  have "\<exists>inputDims.
         weightedPoolingInputIndex (SingleInputPoolingOp k inp win out a)
           (map Dim [0 ..< n]) (map Dim [n ..< 2 * n]) = Inr inputDims \<and>
         length inputDims = n \<and>
         (\<forall>j < n. \<exists>s d p.
            getStride (SingleInputPoolingOp k inp win out a) j = Inr s \<and>
            getDilation (SingleInputPoolingOp k inp win out a) j = Inr d \<and>
            getLowPad (SingleInputPoolingOp k inp win out a) j = Inr p \<and>
            inputDims ! j = weightedExpr (Dim j) (Dim (n + j)) s d p) \<and>
         indexing_maps (SingleInputPoolingOp k inp win out a) =
           Inr [\<lparr>numDims = 2 * n, numSymbols = 0, results = inputDims\<rparr>,
                \<lparr>numDims = 2 * n, numSymbols = 0, results = map Dim [n ..< 2 * n]\<rparr>,
                \<lparr>numDims = 2 * n, numSymbols = 0, results = map Dim [0 ..< n]\<rparr>]"
    if "getRank out = n" "0 < n" "attrsInBounds a n"
    using Pooling_indexing_maps_ok [OF that, of k inp win]
    unfolding dims_ranges AffineMap_get_def by blast
  then show ?thesis
    by (simp add: Pooling_iterator_types_eq Pooling_getNumParallelLoops
          Pooling_getNumWindowLoops Pooling_indexing_maps_fail)
qed

theorem Pooling_iterators_and_maps_witness:
  "getRank [Static 2, Static 2] = 2 \<and> (0::nat) < 2 \<and>
   attrsInBounds \<lparr>strides = Some [2, 2], dilations = None, padding = None\<rparr> 2 \<and>
   iterator_types (SingleInputPoolingOp PoolingMax [Static 4, Static 4] [Static 2, Static 2]
       [Static 2, Static 2] \<lparr>strides = Some [2, 2], dilations = None, padding = None\<rparr>) =
     Inr [''parallel'', ''parallel'', ''window'', ''window''] \<and>
   (\<exists>inputDims.
      length inputDims = 2 \<and>
      indexing_maps (SingleInputPoolingOp PoolingMax [Static 4, Static 4] [Static 2, Static 2]
          [Static 2, Static 2] \<lparr>strides = Some [2, 2], dilations = None, padding = None\<rparr>) =
        Inr [\<lparr>numDims = 4, numSymbols = 0, results = inputDims\<rparr>,
             \<lparr>numDims = 4, numSymbols = 0, results = [Dim 2, Dim 3]\<rparr>,
             \<lparr>numDims = 4, numSymbols = 0, results = [Dim 0, Dim 1]\<rparr>])"
proof -
  have r: "getRank [Static 2, Static 2] = 2"
    by (simp add: getRank_def)
  have up: "[2 ..< 2 * 2] = [2, 3 :: nat]" "[0 ..< 2] = [0, 1 :: nat]"
    by (simp_all add: upt_rec)
  have a: "attrsInBounds \<lparr>strides = Some [2, 2], dilations = None, padding = None\<rparr> 2"
    by (simp add: attrsInBounds_def)
  show ?thesis
    using r a
      Pooling_iterators_and_maps [of PoolingMax "[Static 4, Static 4]" "[Static 2, Static 2]"
        "[Static 2, Static 2]" "\<lparr>strides = Some [2, 2], dilations = None, padding = None\<rparr>" 2]
    unfolding up by (auto simp: numeral_2_eq_2)
qed

lemma ConvOp_input_index:
  assumes r: "getRank out = n + 2" and pos: "0 < n" and a: "attrsInBounds a n"
    and i: "i < n" and pt: "length pt = 2 * n + 3"
  shows "\<exists>filterMap inputMap outputMap s d p.
      indexing_maps (ConvOp flt inp out a) = Inr [filterMap, inputMap, outputMap] \<and>
      getStride (ConvOp flt inp out a) i = Inr s \<and>
      getDilation (ConvOp flt inp out a) i = Inr d \<and>
      getLowPad (ConvOp flt inp out a) i = Inr p \<and>
      eval_expr pt (results outputMap ! (1 + i)) = Some (pt ! (1 + i)) \<and>
      eval_expr pt (results filterMap ! i) = Some (pt ! (n + 3 + i)) \<and>
      eval_expr pt (results inputMap ! (1 + i)) =
        Some (pt ! (1 + i) * s + pt ! (n + 3 + i) * d - p)"
proof -
  let ?op = "ConvOp flt inp out a"
  let ?xs = "fst (makeAffineDimExprs n 1)"
  let ?zs = "fst (makeAffineDimExprs n (n + 3))"
  from ConvOp_indexing_maps_ok [OF r pos a, of flt inp] obtain ws where
    maps: "indexing_maps ?op =
           Inr [AffineMap_get (2 * n + 3) 0 (?zs @ [Dim (n + 2)] @ [Dim (n + 1)]),
                AffineMap_get (2 * n + 3) 0 ([Dim 0] @ ws @ [Dim (n + 2)]),
                AffineMap_get (2 * n + 3) 0 ([Dim 0] @ ?xs @ [Dim (n + 1)])]"
    and len: "length ws = n"
    and each: "\<forall>j < n. \<exists>s d p.
               getStride ?op j = Inr s \<and> getDilation ?op j = Inr d \<and>
               getLowPad ?op j = Inr p \<and>
               ws ! j = weightedExpr (Dim (1 + j)) (Dim (n + 3 + j)) s d p"
    by blast
  from each i obtain s d p where
    sdp: "getStride ?op i = Inr s" "getDilation ?op i = Inr d" "getLowPad ?op i = Inr p"
    and wi: "ws ! i = weightedExpr (Dim (1 + i)) (Dim (n + 3 + i)) s d p"
    by blast
  have o: "([Dim 0] @ ?xs @ [Dim (n + 1)]) ! (1 + i) = Dim (1 + i)"
    using i by (simp add: nth_append makeAffineDimExprs_length makeAffineDimExprs_nth)
  have f: "(?zs @ [Dim (n + 2)] @ [Dim (n + 1)]) ! i = Dim (n + 3 + i)"
    using i by (simp add: nth_append makeAffineDimExprs_length makeAffineDimExprs_nth)
  have w: "([Dim 0] @ ws @ [Dim (n + 2)]) ! (1 + i) = ws ! i"
    using i len by (simp add: nth_append)
  have ev: "eval_expr pt (ws ! i) = Some (pt ! (1 + i) * s + pt ! (n + 3 + i) * d - p)"
    unfolding wi using i pt by (intro eval_weightedExpr) simp_all
  have evo: "eval_expr pt (Dim (1 + i)) = Some (pt ! (1 + i))"
    "eval_expr pt (Dim (n + 3 + i)) = Some (pt ! (n + 3 + i))"
    using i pt by simp_all
  show ?thesis
    apply (intro exI conjI)
          apply (rule maps)
         apply (rule sdp(1))
        apply (rule sdp(2))
       apply (rule sdp(3))
      apply (simp only: AffineMap_get_def AffineMap.select_convs o evo)
     apply (simp only: AffineMap_get_def AffineMap.select_convs f evo)
    apply (simp only: AffineMap_get_def AffineMap.select_convs w ev)
    done
qed

lemma Pooling_input_index:
  assumes r: "getRank out = n" and pos: "0 < n" and a: "attrsInBounds a n"
    and i: "i < n" and pt: "length pt = 2 * n"
  shows "\<exists>inputMap windowMap outputMap s d p.
      indexing_maps (SingleInputPoolingOp k inp win out a) =
        Inr [inputMap, windowMap, outputMap] \<and>
      getStride (SingleInputPoolingOp k inp win out a) i = Inr s \<and>
      getDilation (SingleInputPoolingOp k inp win out a) i = Inr d \<and>
      getLowPad (SingleInputPoolingOp k inp win out a) i = Inr p \<and>
      eval_expr pt (results outputMap ! i) = Some (pt ! i) \<and>
      eval_expr pt (results windowMap ! i) = Some (pt ! (n + i)) \<and>
      eval_expr pt (results inputMap ! i) = Some (pt ! i * s + pt ! (n + i) * d - p)"
proof -
  let ?op = "SingleInputPoolingOp k inp win out a"
  let ?xs = "fst (makeAffineDimExprs n 0)"
  let ?zs = "fst (makeAffineDimExprs n n)"
  from Pooling_indexing_maps_ok [OF r pos a, of k inp win] obtain ws where
    maps: "indexing_maps ?op =
           Inr [AffineMap_get (2 * n) 0 ws, AffineMap_get (2 * n) 0 ?zs,
                AffineMap_get (2 * n) 0 ?xs]"
    and len: "length ws = n"
    and each: "\<forall>j < n. \<exists>s d p.
               getStride ?op j = Inr s \<and> getDilation ?op j = Inr d \<and>
               getLowPad ?op j = Inr p \<and>
               ws ! j = weightedExpr (Dim j) (Dim (n + j)) s d p"
    by blast
  from each i obtain s d p where
    sdp: "getStride ?op i = Inr s" "getDilation ?op i = Inr d" "getLowPad ?op i = Inr p"
    and wi: "ws ! i = weightedExpr (Dim i) (Dim (n + i)) s d p"
    by blast
  have o: "?xs ! i = Dim i" and f: "?zs ! i = Dim (n + i)"
    using i by (simp_all add: makeAffineDimExprs_nth)
  have ev: "eval_expr pt (ws ! i) = Some (pt ! i * s + pt ! (n + i) * d - p)"
    unfolding wi using i pt by (intro eval_weightedExpr) simp_all
  have evo: "eval_expr pt (Dim i) = Some (pt ! i)"
    "eval_expr pt (Dim (n + i)) = Some (pt ! (n + i))"
    using i pt by simp_all
  show ?thesis
    apply (intro exI conjI)
          apply (rule maps)
         apply (rule sdp(1))
        apply (rule sdp(2))
       apply (rule sdp(3))
      apply (simp only: AffineMap_get_def AffineMap.select_convs o evo)
     apply (simp only: AffineMap_get_def AffineMap.select_convs f evo)
    apply (simp only: AffineMap_get_def AffineMap.select_convs ev)
    done
qed


lemma list_of_length_two: "length ws = 2 \<Longrightarrow> ws = [ws ! 0, ws ! 1]"
  by (cases ws; cases "tl ws") auto

lemma ConvOp_stride_two_index:
  assumes r: "getRank out = 4"
  shows "\<exists>filterMap inputMap outputMap.
      indexing_maps (ConvOp flt inp out
          \<lparr>strides = Some [2, 2], dilations = Some [1, 1],
           padding = Some [(0, 0), (0, 0)]\<rparr>) = Inr [filterMap, inputMap, outputMap] \<and>
      eval_map [b, x0, x1, k, q, z0, z1] outputMap = Some [b, x0, x1, k] \<and>
      eval_map [b, x0, x1, k, q, z0, z1] filterMap = Some [z0, z1, q, k] \<and>
      eval_map [b, x0, x1, k, q, z0, z1] inputMap = Some [b, 2 * x0 + z0, 2 * x1 + z1, q]"
proof -
  let ?a = "\<lparr>strides = Some [2, 2], dilations = Some [1, 1],
             padding = Some [(0, 0), (0, 0)]\<rparr>"
  let ?op = "ConvOp flt inp out ?a"
  have r': "getRank out = 2 + 2"
    using r by simp
  have pos: "(0::nat) < 2"
    by simp
  have a: "attrsInBounds ?a 2"
    by (simp add: attrsInBounds_def)
  have nw: "getNumWindowLoops ?op = Inr 2"
    using ConvOp_getNumWindowLoops [of out flt inp ?a] r by simp
  have acc: "getStride ?op 0 = Inr 2" "getStride ?op 1 = Inr 2"
    "getDilation ?op 0 = Inr 1" "getDilation ?op 1 = Inr 1"
    "getLowPad ?op 0 = Inr 0" "getLowPad ?op 1 = Inr 0"
    by (simp_all add: getStride_def getDilation_def getLowPad_def nw bindE_Inr)
  have dims: "fst (makeAffineDimExprs 2 1) = [Dim 1, Dim 2]"
    "fst (makeAffineDimExprs 2 (2 + 3)) = [Dim 5, Dim 6]"
    by (simp_all add: makeAffineDimExprs_def upt_rec)
  from ConvOp_indexing_maps_ok [OF r' pos a, of flt inp] obtain ws where
    maps: "indexing_maps ?op =
           Inr [AffineMap_get (2 * 2 + 3) 0 ([Dim 5, Dim 6] @ [Dim (2 + 2)] @ [Dim (2 + 1)]),
                AffineMap_get (2 * 2 + 3) 0 ([Dim 0] @ ws @ [Dim (2 + 2)]),
                AffineMap_get (2 * 2 + 3) 0 ([Dim 0] @ [Dim 1, Dim 2] @ [Dim (2 + 1)])]"
    and len: "length ws = 2"
    and each: "\<forall>j < 2. \<exists>s d p.
               getStride ?op j = Inr s \<and> getDilation ?op j = Inr d \<and>
               getLowPad ?op j = Inr p \<and>
               ws ! j = weightedExpr (Dim (1 + j)) (Dim (2 + 3 + j)) s d p"
    unfolding dims by blast
  have w0: "ws ! 0 = weightedExpr (Dim (1 + 0)) (Dim (2 + 3 + 0)) 2 1 0"
    using each [rule_format, of 0] acc by auto
  have w1: "ws ! 1 = weightedExpr (Dim (1 + 1)) (Dim (2 + 3 + 1)) 2 1 0"
    using each [rule_format, of 1] acc by auto
  have ws: "ws = [weightedExpr (Dim 1) (Dim 5) 2 1 0, weightedExpr (Dim 2) (Dim 6) 2 1 0]"
    using list_of_length_two [OF len] w0 w1 by (simp add: numeral_2_eq_2)
  show ?thesis
    unfolding maps ws
    by (simp add: AffineMap_get_def eval_map_def weightedExpr_def)
qed

text \<open>
  Claim C1. For a convolution and for a single-input pooling operation, at every
  spatial dimension \<open>i\<close> the input index expression has the value
  \<open>output_coord[i] * stride[i] + window_coord[i] * dilation[i] - low_pad[i]\<close> at every
  point of the iteration space, stride, dilation and low padding being what the
  accessors return and the coordinates being the values of the output map and of the
  window (filter) map. For a convolution with two spatial dimensions, strides \<open>[2, 2]\<close>,
  dilations \<open>[1, 1]\<close> and zero padding, at output coordinate \<open>(x0, x1)\<close> and window
  coordinate \<open>(z0, z1)\<close> the spatial input index is \<open>(2 * x0 + z0, 2 * x1 + z1)\<close>.
\<close>

theorem weighted_window_index:
  "(getRank out = n + 2 \<longrightarrow> 0 < n \<longrightarrow> attrsInBounds a n \<longrightarrow> i < n \<longrightarrow>
      length pt = 2 * n + 3 \<longrightarrow>
      (\<exists>filterMap inputMap outputMap s d p.
         indexing_maps (ConvOp flt inp out a) = Inr [filterMap, inputMap, outputMap] \<and>
         getStride (ConvOp flt inp out a) i = Inr s \<and>
         getDilation (ConvOp flt inp out a) i = Inr d \<and>
         getLowPad (ConvOp flt inp out a) i = Inr p \<and>
         eval_expr pt (results outputMap ! (1 + i)) = Some (pt ! (1 + i)) \<and>
         eval_expr pt (results filterMap ! i) = Some (pt ! (n + 3 + i)) \<and>
         eval_expr pt (results inputMap ! (1 + i)) =
           Some (pt ! (1 + i) * s + pt ! (n + 3 + i) * d - p))) \<and>
   (getRank pout = m \<longrightarrow> 0 < m \<longrightarrow> attrsInBounds pa m \<longrightarrow> j < m \<longrightarrow>
      length ppt = 2 * m \<longrightarrow>
      (\<exists>inputMap windowMap outputMap s d p.
         indexing_maps (SingleInputPoolingOp k pinp pwin pout pa) =
           Inr [inputMap, windowMap, outputMap] \<and>
         getStride (SingleInputPoolingOp k pinp pwin pout pa) j = Inr s \<and>
         getDilation (SingleInputPoolingOp k pinp pwin pout pa) j = Inr d \<and>
         getLowPad (SingleInputPoolingOp k pinp pwin pout pa) j = Inr p \<and>
         eval_expr ppt (results outputMap ! j) = Some (ppt ! j) \<and>
         eval_expr ppt (results windowMap ! j) = Some (ppt ! (m + j)) \<and>
         eval_expr ppt (results inputMap ! j) = Some (ppt ! j * s + ppt ! (m + j) * d - p))) \<and>
   (getRank cout = 4 \<longrightarrow>
      (\<exists>filterMap inputMap outputMap.
         indexing_maps (ConvOp cflt cinp cout
             \<lparr>strides = Some [2, 2], dilations = Some [1, 1],
              padding = Some [(0, 0), (0, 0)]\<rparr>) = Inr [filterMap, inputMap, outputMap] \<and>
         eval_map [b, x0, x1, c, q, z0, z1] outputMap = Some [b, x0, x1, c] \<and>
         eval_map [b, x0, x1, c, q, z0, z1] filterMap = Some [z0, z1, q, c] \<and>
         eval_map [b, x0, x1, c, q, z0, z1] inputMap =
           Some [b, 2 * x0 + z0, 2 * x1 + z1, q]))"
  using ConvOp_input_index [of out n a i pt flt inp]
    Pooling_input_index [of pout m pa j ppt k pinp pwin]
    ConvOp_stride_two_index [of cout cflt cinp b x0 x1 c q z0 z1]
  by (intro conjI impI) assumption+


theorem weighted_window_index_witness:
  "getRank [Dynamic, Static 8, Static 8, Dynamic] = 2 + 2 \<and> (0::nat) < 2 \<and>
   attrsInBounds \<lparr>strides = Some [2, 2], dilations = None, padding = None\<rparr> 2 \<and>
   (1::nat) < 2 \<and> length [0, 3, 4, 0, 0, 1, 1 :: int] = 2 * 2 + 3 \<and>
   getRank [Static 2, Static 2] = 2 \<and> length [1, 1, 1, 0 :: int] = 2 * 2 \<and>
   getRank [Dynamic, Static 8, Static 8, Dynamic] = 4 \<and>
   (\<exists>filterMap inputMap outputMap.
      indexing_maps (ConvOp [Static 3, Static 3, Dynamic, Dynamic]
          [Dynamic, Static 17, Static 17, Dynamic] [Dynamic, Static 8, Static 8, Dynamic]
          \<lparr>strides = Some [2, 2], dilations = None, padding = None\<rparr>) =
        Inr [filterMap, inputMap, outputMap] \<and>
      eval_expr [0, 3, 4, 0, 0, 1, 1] (results inputMap ! 2) = Some 9) \<and>
   (\<exists>inputMap windowMap outputMap.
      indexing_maps (SingleInputPoolingOp PoolingMax [Static 4, Static 4] [Static 2, Static 2]
          [Static 2, Static 2] \<lparr>strides = Some [2, 2], dilations = None, padding = None\<rparr>) =
        Inr [inputMap, windowMap, outputMap] \<and>
      eval_expr [1, 1, 1, 0] (results inputMap ! 1) = Some 2) \<and>
   (\<exists>filterMap inputMap outputMap.
      indexing_maps (ConvOp [Static 3, Static 3, Dynamic, Dynamic]
          [Dynamic, Static 17, Static 17, Dynamic] [Dynamic, Static 8, Static 8, Dynamic]
          \<lparr>strides = Some [2, 2], dilations = Some [1, 1],
           padding = Some [(0, 0), (0, 0)]\<rparr>) = Inr [filterMap, inputMap, outputMap] \<and>
      eval_map [0, 3, 4, 0, 0, 1, 1] inputMap = Some [0, 7, 9, 0])"
proof -
  let ?a = "\<lparr>strides = Some [2, 2], dilations = None, padding = None\<rparr>"
  let ?conv = "ConvOp [Static 3, Static 3, Dynamic, Dynamic]
          [Dynamic, Static 17, Static 17, Dynamic] [Dynamic, Static 8, Static 8, Dynamic] ?a"
  let ?pool = "SingleInputPoolingOp PoolingMax [Static 4, Static 4] [Static 2, Static 2]
          [Static 2, Static 2] ?a"
  have r: "getRank [Dynamic, Static 8, Static 8, Dynamic] = 2 + 2"
    "getRank [Dynamic, Static 8, Static 8, Dynamic] = 4" "getRank [Static 2, Static 2] = 2"
    by (simp_all add: getRank_def)
  have a: "attrsInBounds ?a 2"
    by (simp add: attrsInBounds_def)
  have l: "length [0, 3, 4, 0, 0, 1, 1 :: int] = 2 * 2 + 3" "length [1, 1, 1, 0 :: int] = 2 * 2"
    by simp_all
  have nw: "getNumWindowLoops ?conv = Inr 2" "getNumWindowLoops ?pool = Inr 2"
    by (simp_all add: ConvOp_getNumWindowLoops Pooling_getNumWindowLoops getRank_def)
  have acc: "getStride ?conv 1 = Inr 2" "getDilation ?conv 1 = Inr 1" "getLowPad ?conv 1 = Inr 0"
    "getStride ?pool 1 = Inr 2" "getDilation ?pool 1 = Inr 1" "getLowPad ?pool 1 = Inr 0"
    by (simp_all add: getStride_def getDilation_def getLowPad_def nw bindE_Inr)
  note w = weighted_window_index [of "[Dynamic, Static 8, Static 8, Dynamic]" 2 ?a 1
      "[0, 3, 4, 0, 0, 1, 1]" "[Static 3, Static 3, Dynamic, Dynamic]"
      "[Dynamic, Static 17, Static 17, Dynamic]"
      "[Static 2, Static 2]" 2 ?a 1 "[1, 1, 1, 0]" PoolingMax "[Static 4, Static 4]"
      "[Static 2, Static 2]"
      "[Dynamic, Static 8, Static 8, Dynamic]" "[Static 3, Static 3, Dynamic, Dynamic]"
      "[Dynamic, Static 17, Static 17, Dynamic]" 0 3 4 0 0 1 1]
  have i: "(1::nat) < 2" and pos: "(0::nat) < 2"
    by simp_all
  from w [THEN conjunct1, rule_format, OF r(1) pos a i l(1)]
  obtain fm im om s d p where
    m1: "indexing_maps ?conv = Inr [fm, im, om]"
    and sdp1: "getStride ?conv 1 = Inr s" "getDilation ?conv 1 = Inr d"
      "getLowPad ?conv 1 = Inr p"
    and ev1: "eval_expr [0, 3, 4, 0, 0, 1, 1] (results im ! (1 + 1)) =
        Some ([0, 3, 4, 0, 0, 1, 1] ! (1 + 1) * s + [0, 3, 4, 0, 0, 1, 1] ! (2 + 3 + 1) * d - p)"
    by blast
  have "s = 2" "d = 1" "p = 0"
    using sdp1 acc by simp_all
  with ev1 have "eval_expr [0, 3, 4, 0, 0, 1, 1] (results im ! 2) = Some 9"
    by (simp add: numeral_2_eq_2)
  with m1 have c1: "\<exists>filterMap inputMap outputMap.
      indexing_maps ?conv = Inr [filterMap, inputMap, outputMap] \<and>
      eval_expr [0, 3, 4, 0, 0, 1, 1] (results inputMap ! 2) = Some 9"
    by blast
  from w [THEN conjunct2, THEN conjunct1, rule_format, OF r(3) pos a i l(2)]
  obtain pim pwm pom ps pd pp where
    m2: "indexing_maps ?pool = Inr [pim, pwm, pom]"
    and sdp2: "getStride ?pool 1 = Inr ps" "getDilation ?pool 1 = Inr pd"
      "getLowPad ?pool 1 = Inr pp"
    and ev2: "eval_expr [1, 1, 1, 0] (results pim ! 1) =
        Some ([1, 1, 1, 0] ! 1 * ps + [1, 1, 1, 0] ! (2 + 1) * pd - pp)"
    by blast
  have "ps = 2" "pd = 1" "pp = 0"
    using sdp2 acc by simp_all
  with ev2 have "eval_expr [1, 1, 1, 0] (results pim ! 1) = Some 2"
    by simp
  with m2 have c2: "\<exists>inputMap windowMap outputMap.
      indexing_maps ?pool = Inr [inputMap, windowMap, outputMap] \<and>
      eval_expr [1, 1, 1, 0] (results inputMap ! 1) = Some 2"
    by blast
  from w [THEN conjunct2, THEN conjunct2, rule_format, OF r(2)]
  have c3: "\<exists>filterMap inputMap outputMap.
      indexing_maps (ConvOp [Static 3, Static 3, Dynamic, Dynamic]
          [Dynamic, Static 17, Static 17, Dynamic] [Dynamic, Static 8, Static 8, Dynamic]
          \<lparr>strides = Some [2, 2], dilations = Some [1, 1],
           padding = Some [(0, 0), (0, 0)]\<rparr>) = Inr [filterMap, inputMap, outputMap] \<and>
      eval_map [0, 3, 4, 0, 0, 1, 1] inputMap = Some [0, 7, 9, 0]"
    by auto
  show ?thesis
    using r a l c1 c2 c3 by (intro conjI) simp_all
qed

end
